theory Spec2Isabelle
  imports Main
begin

section \<open>Protocol parameter encoding: \<open>cdp/dom_storage.py\<close>\<close>

text \<open>
  \<open>T_JSON_DICT\<close> is a Python dict from strings to JSON values. Only the JSON values
  that \<open>StorageId.to_json\<close> can store are needed, and \<open>JNull\<close>, the value an
  optional field would have if it were emitted while unset.
\<close>

datatype json = JNull | JBool bool | JString string

type_synonym json_dict = "string \<rightharpoonup> json"

text \<open>
  \<open>SerializedStorageKey\<close> is a subclass of \<open>str\<close> whose \<open>to_json\<close> returns the
  string itself.
\<close>

type_synonym SerializedStorageKey = string

definition SerializedStorageKey_to_json :: "SerializedStorageKey \<Rightarrow> string" where
  "SerializedStorageKey_to_json self = self"

record StorageId =
  is_local_storage :: bool
  security_origin :: "string option"
  storage_key :: "SerializedStorageKey option"

definition StorageId_to_json :: "StorageId \<Rightarrow> json_dict" where
  "StorageId_to_json self =
     (let json0 = Map.empty;
          json1 = json0(''isLocalStorage'' \<mapsto> JBool (is_local_storage self));
          json2 = (case security_origin self of
                     None \<Rightarrow> json1
                   | Some so \<Rightarrow> json1(''securityOrigin'' \<mapsto> JString so));
          json3 = (case storage_key self of
                     None \<Rightarrow> json2
                   | Some sk \<Rightarrow> json2(''storageKey'' \<mapsto> JString (SerializedStorageKey_to_json sk)))
      in json3)"

section \<open>The query engine: \<open>core/tab.py\<close>\<close>

subsection \<open>Strings\<close>

text \<open>
  \<open>str.lower\<close> on the ASCII range: the letters \<open>A\<close> to \<open>Z\<close> move to \<open>a\<close> to \<open>z\<close>,
  every other character stays.
\<close>

definition lower_char :: "char \<Rightarrow> char" where
  "lower_char c =
     (case map_of (zip ''ABCDEFGHIJKLMNOPQRSTUVWXYZ'' ''abcdefghijklmnopqrstuvwxyz'') c of
        None \<Rightarrow> c
      | Some l \<Rightarrow> l)"

definition lower :: "string \<Rightarrow> string" where
  "lower s = map lower_char s"

text \<open>Python's \<open>a in b\<close> on strings: \<open>a\<close> occurs in \<open>b\<close> as a contiguous run.\<close>

fun str_in :: "string \<Rightarrow> string \<Rightarrow> bool" where
  "str_in a [] = (a = [])"
| "str_in a (c # cs) = (take (length a) (c # cs) = a \<or> str_in a cs)"

subsection \<open>Document nodes and element handles\<close>

text \<open>
  A \<open>cdp.dom.Node\<close>, with the fields that \<open>tab.py\<close> reads: the identifier, the
  parent's identifier, the node type (3 is a text node), the tag name, the text value,
  the ordered children, and the document of a frame owner.
\<close>

datatype node = Node
  (node_id : nat)
  (parent_id : "nat option")
  (node_type : nat)
  (node_name : string)
  (node_value : string)
  (children : "node list")
  (content_document : "node option")

text \<open>
  Modelled from the spec: \<open>util.filter_recurse\<close> is not among the sources. The spec has
  a query result "resolved against the freshly fetched subtree": the search walks the
  children of the given root depth first, in document order, and yields the first node
  that satisfies the predicate, or nothing.
\<close>

fun filter_recurse :: "node \<Rightarrow> (node \<Rightarrow> bool) \<Rightarrow> node option"
  and filter_recurse_list :: "node list \<Rightarrow> (node \<Rightarrow> bool) \<Rightarrow> node option" where
  "filter_recurse (Node i p t n v cs d) predicate = filter_recurse_list cs predicate"
| "filter_recurse_list [] predicate = None"
| "filter_recurse_list (child # rest) predicate =
     (if predicate child then Some child
      else (case filter_recurse child predicate of
              Some result \<Rightarrow> Some result
            | None \<Rightarrow> filter_recurse_list rest predicate))"

text \<open>
  Modelled from the spec: the \<open>Element\<close> class is not among the sources. The spec's
  ElementHandle "wraps a DomNode plus the owning session and the document root it was
  resolved against". The handle is a Python object, so it also carries the instance
  attributes that code sets on it at run time (\<open>e_dict\<close>, in insertion order).
\<close>

record element =
  e_node :: node
  e_tree :: "node option"
  e_dict :: "(string \<times> bool) list"

text \<open>
  Modelled from the spec: \<open>element.create(node, tab, tree)\<close> wraps a node and the tree it
  was resolved against. There is no handle without a node: on \<open>None\<close> the call raises,
  which the callers below handle where they can pass \<open>None\<close>.
\<close>

definition create :: "node \<Rightarrow> node option \<Rightarrow> element" where
  "create nd tree = \<lparr>e_node = nd, e_tree = tree, e_dict = []\<rparr>"

text \<open>
  Modelled from the spec: a DomNode has a "parent (back-reference, not owning)"; the
  handle's \<open>parent\<close> is the node of its tree whose identifier is the node's
  \<open>parent_id\<close>, wrapped against the same tree, or \<open>None\<close> when the tree has no such node.
\<close>

definition parent :: "element \<Rightarrow> element option" where
  "parent elem =
     (case e_tree elem of None \<Rightarrow> None
      | Some tree \<Rightarrow>
          (case parent_id (e_node elem) of None \<Rightarrow> None
           | Some pid \<Rightarrow>
               (case filter_recurse tree (\<lambda>n. node_id n = pid) of None \<Rightarrow> None
                | Some parent_node \<Rightarrow> Some (create parent_node (Some tree)))))"

text \<open>
  Modelled from the spec: the handle's \<open>text\<close> is the element's "full rendered text":
  the values of the text nodes (type 3) at and below the node, in document order.
\<close>

fun text_nodes :: "node \<Rightarrow> string list"
  and text_nodes_list :: "node list \<Rightarrow> string list" where
  "text_nodes (Node i p t n v cs d) = (if t = 3 then [v] else []) @ text_nodes_list cs"
| "text_nodes_list [] = []"
| "text_nodes_list (child # rest) = text_nodes child @ text_nodes_list rest"

definition text_of :: "element \<Rightarrow> string" where
  "text_of elem = concat (text_nodes (e_node elem))"

subsection \<open>Module-level helpers\<close>

definition bannedtextsearchresults :: "string set" where
  "bannedtextsearchresults = set [''title'', ''meta'', ''script'', ''link'', ''style'', ''head'']"

definition isbanned :: "node \<Rightarrow> bool" where
  "isbanned nd = (lower (node_name nd) \<in> bannedtextsearchresults)"

definition issametype :: "node \<Rightarrow> string \<Rightarrow> bool" where
  "issametype nd ty = (lower (node_name nd) = ty)"

definition append_safe :: "element list \<Rightarrow> element \<Rightarrow> string \<Rightarrow> bool \<Rightarrow> element list" where
  "append_safe results elem txt exact_match =
     (if exact_match then (if txt = text_of elem then results @ [elem] else results)
      else results @ [elem])"

subsection \<open>Exceptions, protocol commands and the session state\<close>

text \<open>
  The exceptions that the modelled code raises or lets through. \<open>RecursionError\<close> is
  what the Python interpreter raises when calls nest deeper than its recursion limit.
\<close>

datatype exception_details = ExceptionDetails (exception_text : string)

datatype exn =
    ProtocolException (message : string)
  | DriverException string
  | ElementWithSelectorNotFoundException string
  | JavascriptSyntaxException
  | JavascriptException exception_details
  | JSONDecodeError string
  | AttributeError
  | TypeError
  | RecursionError

text \<open>
  The scripts that \<open>evaluate\<close> and \<open>js_dumps\<close> send: the template each one fills, and
  the text filled in. \<open>Wrapped e\<close> is the wrapper of \<open>evaluate\<close> with \<open>SCRIPT\<close> replaced
  by \<open>e\<close>; \<open>JsCodeA o\<close> and \<open>JsCodeB o\<close> are the two dump scripts applied to \<open>o\<close>.
\<close>

datatype script = Wrapped string | JsCodeA string | JsCodeB string

datatype command =
    DomGetDocument
  | DomQuerySelector nat string
  | DomQuerySelectorAll nat string
  | DomPerformSearch string
  | DomGetSearchResults string nat nat
  | DomDiscardSearchResults string
  | DomDisable
  | RuntimeEvaluate script bool bool

text \<open>
  What a coroutine of the tab does to the outside, in order: a command sent, a handle
  refreshed (\<open>update\<close>, by the node identifier it had), \<open>await self\<close>, and a sleep of so
  many milliseconds.
\<close>

datatype event = Send command | Update nat | AwaitTab | Sleep nat

text \<open>
  The session state: the number of suspension points passed so far, the reading of
  \<open>loop.time()\<close> in milliseconds, and the events so far.
\<close>

record state =
  tick :: nat
  clock :: nat
  trace :: "event list"

record remote_object =
  ro_value :: "string option"

text \<open>
  The browser on the other end of the connection, as the replies it gives: the reply to
  a command may depend on the command and on when it is sent (the \<open>tick\<close>). \<open>Inl m\<close> is
  an error payload with message \<open>m\<close>, which \<open>send\<close> raises as a \<open>ProtocolException\<close>.
  \<open>latency\<close> is the time, in milliseconds, that the suspension at a tick takes beyond
  what the code asks for. \<open>recursion_limit\<close> is the depth of nested calls that the
  interpreter still allows.
\<close>

record browser =
  latency :: "nat \<Rightarrow> nat"
  get_document :: "nat \<Rightarrow> string + node"
  query_selector_reply :: "nat \<Rightarrow> nat \<Rightarrow> string \<Rightarrow> string + nat"
  query_selector_all_reply :: "nat \<Rightarrow> nat \<Rightarrow> string \<Rightarrow> string + nat list"
  perform_search_reply :: "nat \<Rightarrow> string \<Rightarrow> string + (string \<times> nat)"
  get_search_results_reply :: "nat \<Rightarrow> string \<Rightarrow> nat \<Rightarrow> nat \<Rightarrow> string + nat list"
  discard_search_results_reply :: "nat \<Rightarrow> string \<Rightarrow> string + unit"
  disable_reply :: "nat \<Rightarrow> string + unit"
  evaluate_reply :: "nat \<Rightarrow> script \<Rightarrow> bool \<Rightarrow> bool
                      \<Rightarrow> string + (remote_object option \<times> exception_details option) option"
  update_reply :: "nat \<Rightarrow> element \<Rightarrow> string + element"
  recursion_limit :: nat

definition suspend :: "browser \<Rightarrow> event \<Rightarrow> state \<Rightarrow> state" where
  "suspend b ev s =
     s\<lparr>tick := Suc (tick s), clock := clock s + latency b (tick s), trace := trace s @ [ev]\<rparr>"

text \<open>\<open>self.send(cmd)\<close>: the state after the exchange; the reply is the browser's at \<open>tick s\<close>.\<close>

definition send :: "browser \<Rightarrow> command \<Rightarrow> state \<Rightarrow> state" where
  "send b cmd s = suspend b (Send cmd) s"

text \<open>
  Modelled from the spec: \<open>Connection.sleep\<close> and \<open>Connection.__await__\<close> are not among
  the sources. "Every polling loop suspends for the fixed retry interval": a sleep takes
  the time asked for and the latency of the suspension; \<open>await self\<close> is a suspension.
\<close>

definition sleep :: "browser \<Rightarrow> nat \<Rightarrow> state \<Rightarrow> state" where
  "sleep b ms s = (suspend b (Sleep ms) s)\<lparr>clock := clock s + latency b (tick s) + ms\<rparr>"

definition await_tab :: "browser \<Rightarrow> state \<Rightarrow> state" where
  "await_tab b s = suspend b AwaitTab s"

subsection \<open>Instance attributes of a handle\<close>

text \<open>
  \<open>getattr(obj, name, None)\<close> as a truth value, \<open>obj.name = v\<close> and \<open>del obj.name\<close>.
\<close>

definition getattr :: "element \<Rightarrow> string \<Rightarrow> bool" where
  "getattr obj name = (map_of (e_dict obj) name = Some True)"

definition hasattr :: "element \<Rightarrow> string \<Rightarrow> bool" where
  "hasattr obj name = (map_of (e_dict obj) name \<noteq> None)"

definition setattr :: "element \<Rightarrow> string \<Rightarrow> bool \<Rightarrow> element" where
  "setattr obj name v = obj\<lparr>e_dict := (name, v) # filter (\<lambda>kv. fst kv \<noteq> name) (e_dict obj)\<rparr>"

definition delattr :: "element \<Rightarrow> string \<Rightarrow> element" where
  "delattr obj name = obj\<lparr>e_dict := filter (\<lambda>kv. fst kv \<noteq> name) (e_dict obj)\<rparr>"

text \<open>
  Modelled from the spec: the handle "exposes an explicit refresh/update operation that
  re-resolves itself against the current live tree". The refreshed node and tree are the
  browser's; the Python object, with its instance attributes, stays the same.
\<close>

definition update :: "browser \<Rightarrow> element \<Rightarrow> state \<Rightarrow> (exn + element) \<times> state" where
  "update b elem s =
     (case update_reply b (tick s) elem of
        Inl m \<Rightarrow> (Inl (ProtocolException m), suspend b (Update (node_id (e_node elem))) s)
      | Inr fresh \<Rightarrow>
          (Inr (fresh\<lparr>e_dict := e_dict elem\<rparr>), suspend b (Update (node_id (e_node elem))) s))"

subsection \<open>Selector queries\<close>

text \<open>
  The document a query runs against: the fetched document without \<open>_node\<close>, else the
  node itself, or its \<open>content_document\<close> when it is an \<open>IFRAME\<close>.
\<close>

definition scope_of :: "element \<Rightarrow> node option" where
  "scope_of nd =
     (if node_name (e_node nd) = ''IFRAME'' then content_document (e_node nd)
      else Some (e_node nd))"

text \<open>The loop over the returned identifiers: the ones the document has, wrapped, in order.\<close>

fun collect :: "node \<Rightarrow> nat list \<Rightarrow> element list \<Rightarrow> element list" where
  "collect doc [] results = results"
| "collect doc (nid # rest) results =
     (case filter_recurse doc (\<lambda>n. node_id n = nid) of
        None \<Rightarrow> collect doc rest results
      | Some nd \<Rightarrow> collect doc rest (results @ [create nd (Some doc)]))"

text \<open>
  \<open>Tab.query_selector_all\<close>. The result is the exception raised or the list returned,
  with the handle passed as \<open>_node\<close> (the code changes it in place) and the state.

  The first argument is the depth of calls left: the method calls itself in the handler
  of a "could not find node" error, and a call beyond the limit raises \<open>RecursionError\<close>.

  The guard of that handler reads the attribute \<open>__last\<close> by name,
  \<open>getattr(_node, "__last", None)\<close>, while the statements \<open>_node.__last = True\<close> and
  \<open>del _node.__last\<close> stand in the body of class \<open>Tab\<close>, where Python rewrites an
  identifier that starts with two underscores to \<open>_Tab__last\<close> (private name mangling).
  A string is not rewritten: the attribute set is \<open>_Tab__last\<close>, the attribute read is
  \<open>__last\<close>.

  A \<open>ProtocolException\<close> of a scoped query whose message does not have
  "could not find node" is caught and not raised again: the code goes on with the empty
  \<open>node_ids\<close>.
\<close>

fun query_selector_all_rec ::
  "nat \<Rightarrow> browser \<Rightarrow> string \<Rightarrow> element option \<Rightarrow> state
     \<Rightarrow> (exn + element list) \<times> element option \<times> state" where
  "query_selector_all_rec 0 b selector nd s = (Inl RecursionError, nd, s)"
| "query_selector_all_rec (Suc depth) b selector nd s =
     (case nd of
        None \<Rightarrow>
          (case get_document b (tick s) of
             Inl m \<Rightarrow> (Inl (ProtocolException m), nd, send b DomGetDocument s)
           | Inr doc \<Rightarrow>
               (let s1 = send b DomGetDocument s;
                    s2 = send b (DomQuerySelectorAll (node_id doc) selector) s1
                in case query_selector_all_reply b (tick s1) (node_id doc) selector of
                     Inl m \<Rightarrow>
                       (case disable_reply b (tick s2) of
                          Inl m' \<Rightarrow> (Inl (ProtocolException m'), nd, send b DomDisable s2)
                        | Inr u \<Rightarrow> (Inl (ProtocolException m), nd, send b DomDisable s2))
                   | Inr node_ids \<Rightarrow> (Inr (collect doc node_ids []), nd, s2)))
      | Some node \<Rightarrow>
          (case scope_of node of
             None \<Rightarrow> (Inl AttributeError, nd, s)
           | Some doc \<Rightarrow>
               (let s1 = send b (DomQuerySelectorAll (node_id doc) selector) s
                in case query_selector_all_reply b (tick s) (node_id doc) selector of
                     Inl m \<Rightarrow>
                       if str_in ''could not find node'' (lower m) then
                         if getattr node ''__last'' then
                           if hasattr node ''_Tab__last''
                           then (Inr [], Some (delattr node ''_Tab__last''), s1)
                           else (Inl AttributeError, nd, s1)
                         else
                           (case update b node s1 of
                              (Inl e, s2) \<Rightarrow> (Inl e, nd, s2)
                            | (Inr node', s2) \<Rightarrow>
                                query_selector_all_rec depth b selector
                                  (Some (setattr node' ''_Tab__last'' True)) s2)
                       else (Inr [], nd, s1)
                   | Inr node_ids \<Rightarrow> (Inr (collect doc node_ids []), nd, s1))))"

definition query_selector_all ::
  "browser \<Rightarrow> string \<Rightarrow> element option \<Rightarrow> state
     \<Rightarrow> (exn + element list) \<times> element option \<times> state" where
  "query_selector_all b selector nd s = query_selector_all_rec (recursion_limit b) b selector nd s"

text \<open>
  What a single-element lookup returns: \<open>None\<close>, an element, or the empty list that the
  guard of \<open>query_selector\<close> returns. Only an element is true in a condition.
\<close>

datatype lookup = PyNone | PyEmptyList | PyElement element

fun truthy :: "lookup \<Rightarrow> bool" where
  "truthy (PyElement e) = True"
| "truthy PyNone = False"
| "truthy PyEmptyList = False"

text \<open>
  \<open>Tab.query_selector\<close>, in the same way. An identifier of 0 is no match.
\<close>

definition resolve :: "node \<Rightarrow> nat \<Rightarrow> lookup" where
  "resolve doc nid =
     (if nid = 0 then PyNone
      else (case filter_recurse doc (\<lambda>n. node_id n = nid) of
              None \<Rightarrow> PyNone
            | Some nd \<Rightarrow> PyElement (create nd (Some doc))))"

fun query_selector_rec ::
  "nat \<Rightarrow> browser \<Rightarrow> string \<Rightarrow> element option \<Rightarrow> state
     \<Rightarrow> (exn + lookup) \<times> element option \<times> state" where
  "query_selector_rec 0 b selector nd s = (Inl RecursionError, nd, s)"
| "query_selector_rec (Suc depth) b selector nd s =
     (case nd of
        None \<Rightarrow>
          (case get_document b (tick s) of
             Inl m \<Rightarrow> (Inl (ProtocolException m), nd, send b DomGetDocument s)
           | Inr doc \<Rightarrow>
               (let s1 = send b DomGetDocument s;
                    s2 = send b (DomQuerySelector (node_id doc) selector) s1
                in case query_selector_reply b (tick s1) (node_id doc) selector of
                     Inl m \<Rightarrow>
                       (case disable_reply b (tick s2) of
                          Inl m' \<Rightarrow> (Inl (ProtocolException m'), nd, send b DomDisable s2)
                        | Inr u \<Rightarrow> (Inl (ProtocolException m), nd, send b DomDisable s2))
                   | Inr nid \<Rightarrow> (Inr (resolve doc nid), nd, s2)))
      | Some node \<Rightarrow>
          (case scope_of node of
             None \<Rightarrow> (Inl (DriverException ''Failed to find Document''), nd, s)
           | Some doc \<Rightarrow>
               (let s1 = send b (DomQuerySelector (node_id doc) selector) s
                in case query_selector_reply b (tick s) (node_id doc) selector of
                     Inl m \<Rightarrow>
                       if str_in ''could not find node'' (lower m) then
                         if getattr node ''__last'' then
                           if hasattr node ''_Tab__last''
                           then (Inr PyEmptyList, Some (delattr node ''_Tab__last''), s1)
                           else (Inl AttributeError, nd, s1)
                         else
                           (case update b node s1 of
                              (Inl e, s2) \<Rightarrow> (Inl e, nd, s2)
                            | (Inr node', s2) \<Rightarrow>
                                query_selector_rec depth b selector
                                  (Some (setattr node' ''_Tab__last'' True)) s2)
                       else (Inr PyNone, nd, s1)
                   | Inr nid \<Rightarrow> (Inr (resolve doc nid), nd, s1))))"

definition query_selector ::
  "browser \<Rightarrow> string \<Rightarrow> element option \<Rightarrow> state
     \<Rightarrow> (exn + lookup) \<times> element option \<times> state" where
  "query_selector b selector nd s = query_selector_rec (recursion_limit b) b selector nd s"

subsection \<open>Polling lookups\<close>

text \<open>
  Time is in milliseconds: \<open>sleep(0.5)\<close> is a sleep of 500, a timeout of 10 seconds is
  10000. \<open>now\<close> is the reading of \<open>loop.time()\<close> at the start of the call.

  The \<open>while not item\<close> loop of \<open>Tab.wait_for\<close>, from the top of its body: the query, the
  check of the deadline, the sleep, and then the loop's test of \<open>item\<close>.
\<close>

function wait_for_loop ::
  "browser \<Rightarrow> string \<Rightarrow> int \<Rightarrow> nat \<Rightarrow> state \<Rightarrow> (exn + lookup) \<times> state" where
  "wait_for_loop b selector timeout now s =
     (case query_selector b selector None s of
        (Inl e, nd, s1) \<Rightarrow> (Inl e, s1)
      | (Inr item, nd, s1) \<Rightarrow>
          if int (clock s1) - int now > timeout
          then (Inl (ElementWithSelectorNotFoundException selector), s1)
          else if truthy item then (Inr item, sleep b 500 s1)
          else wait_for_loop b selector timeout now (sleep b 500 s1))"
  by pat_completeness auto
termination
proof (relation "measure (\<lambda>(b, selector, timeout, now, s). nat (int now + timeout + 1 - int (clock s)))")
  show "wf (measure (\<lambda>(b, selector, timeout, now, s). nat (int now + timeout + 1 - int (clock s))))"
    by simp
next
  fix b :: browser and selector :: string and timeout :: int and now :: nat and s :: state
    and x :: "exn + lookup" and y :: "element option \<times> state" and item :: lookup
    and nd :: "element option" and s1 :: state
  assume q: "(x, y) = query_selector b selector None s" and y: "(nd, s1) = y"
    and late: "\<not> timeout < int (clock s1) - int now"
  have mono: "clock s' \<le> clock (snd (snd (query_selector_rec d b selector nd' s')))" for d nd' s'
  proof (induction d arbitrary: nd' s')
    case 0
    show ?case by simp
  next
    case (Suc d)
    show ?case
    proof (cases nd')
      case None
      then show ?thesis
        by (auto simp: Let_def send_def suspend_def split: sum.splits)
    next
      case (Some node)
      have step: "clock s' \<le> clock s2" if "update b node (send b c s') = (r, s2)" for c r s2
        using that by (auto simp: update_def send_def suspend_def split: sum.splits)
      show ?thesis
        using Some
        by (auto simp: Let_def split: option.splits sum.splits prod.splits
                 intro: order_trans [OF step Suc.IH] dest: step)
           (auto simp: send_def suspend_def)
    qed
  qed
  have "s1 = snd (snd (query_selector b selector None s))"
    using q y by (metis snd_conv)
  then have "clock s \<le> clock s1"
    using mono by (simp add: query_selector_def)
  then show "((b, selector, timeout, now, sleep b 500 s1), (b, selector, timeout, now, s))
          \<in> measure (\<lambda>(b, selector, timeout, now, s). nat (int now + timeout + 1 - int (clock s)))"
    using late by (simp add: sleep_def suspend_def)
qed

declare wait_for_loop.simps [simp del]

text \<open>
  \<open>Tab.wait_for(selector, text, timeout)\<close>. The body has one branch, \<open>if selector:\<close>;
  without a selector the method falls off its end and returns \<open>None\<close>.
\<close>

definition wait_for ::
  "browser \<Rightarrow> string \<Rightarrow> string \<Rightarrow> int \<Rightarrow> state \<Rightarrow> (exn + lookup) \<times> state" where
  "wait_for b selector txt timeout s =
     (let now = clock s in
      if selector \<noteq> [] then
        (case query_selector b selector None s of
           (Inl e, nd, s1) \<Rightarrow> (Inl e, s1)
         | (Inr item, nd, s1) \<Rightarrow>
             if truthy item then (Inr item, s1)
             else wait_for_loop b selector timeout now s1)
      else (Inr PyNone, s))"

text \<open>
  \<open>Tab.__call__(text, selector, timeout)\<close> returns \<open>self.wait_for(text, selector, timeout)\<close>:
  its arguments in its own order, by position.
\<close>

definition Tab_call ::
  "browser \<Rightarrow> string \<Rightarrow> string \<Rightarrow> int \<Rightarrow> state \<Rightarrow> (exn + lookup) \<times> state" where
  "Tab_call b txt selector timeout s = wait_for b txt selector timeout s"

text \<open>The loop of \<open>Tab.select\<close>: \<open>await self\<close>, the query, the deadline, the sleep.\<close>

function select_loop ::
  "browser \<Rightarrow> string \<Rightarrow> int \<Rightarrow> element option \<Rightarrow> nat \<Rightarrow> state
     \<Rightarrow> (exn + lookup) \<times> element option \<times> state" where
  "select_loop b selector timeout nd now s =
     (case query_selector b selector nd (await_tab b s) of
        (Inl e, nd', s1) \<Rightarrow> (Inl e, nd', s1)
      | (Inr item, nd', s1) \<Rightarrow>
          if int (clock s1) - int now > timeout then (Inr PyNone, nd', s1)
          else if truthy item then (Inr item, nd', sleep b 500 s1)
          else select_loop b selector timeout nd' now (sleep b 500 s1))"
  by pat_completeness auto
termination
proof (relation "measure (\<lambda>(b, selector, timeout, nd, now, s). nat (int now + timeout + 1 - int (clock s)))")
  show "wf (measure (\<lambda>(b, selector, timeout, nd, now, s). nat (int now + timeout + 1 - int (clock s))))"
    by simp
next
  fix b :: browser and selector :: string and timeout :: int and now :: nat and s :: state
    and x :: "exn + lookup" and y :: "element option \<times> state" and item :: lookup
    and nd nd1 :: "element option" and s1 :: state
  assume q: "(x, y) = query_selector b selector nd (await_tab b s)" and y: "(nd1, s1) = y"
    and late: "\<not> timeout < int (clock s1) - int now"
  have mono: "clock s' \<le> clock (snd (snd (query_selector_rec d b selector nd' s')))" for d nd' s'
  proof (induction d arbitrary: nd' s')
    case 0
    show ?case by simp
  next
    case (Suc d)
    show ?case
    proof (cases nd')
      case None
      then show ?thesis
        by (auto simp: Let_def send_def suspend_def split: sum.splits)
    next
      case (Some node)
      have step: "clock s' \<le> clock s2" if "update b node (send b c s') = (r, s2)" for c r s2
        using that by (auto simp: update_def send_def suspend_def split: sum.splits)
      show ?thesis
        using Some
        by (auto simp: Let_def split: option.splits sum.splits prod.splits
                 intro: order_trans [OF step Suc.IH] dest: step)
           (auto simp: send_def suspend_def)
    qed
  qed
  have "s1 = snd (snd (query_selector b selector nd (await_tab b s)))"
    using q y by (metis snd_conv)
  then have "clock (await_tab b s) \<le> clock s1"
    using mono by (simp add: query_selector_def)
  then have "clock s \<le> clock s1"
    by (simp add: await_tab_def suspend_def)
  then show "((b, selector, timeout, nd1, now, sleep b 500 s1), (b, selector, timeout, nd, now, s))
          \<in> measure (\<lambda>(b, selector, timeout, nd, now, s). nat (int now + timeout + 1 - int (clock s)))"
    using late by (simp add: sleep_def suspend_def)
qed

declare select_loop.simps [simp del]

text \<open>\<open>Tab.select(selector, timeout, _node)\<close>; \<open>if timeout:\<close> holds for a timeout other than 0.\<close>

definition select ::
  "browser \<Rightarrow> string \<Rightarrow> int \<Rightarrow> element option \<Rightarrow> state
     \<Rightarrow> (exn + lookup) \<times> element option \<times> state" where
  "select b selector timeout nd s =
     (let now = clock s in
      case query_selector b selector nd s of
        (Inl e, nd', s1) \<Rightarrow> (Inl e, nd', s1)
      | (Inr item, nd', s1) \<Rightarrow>
          if timeout \<noteq> 0 \<and> \<not> truthy item then select_loop b selector timeout nd' now s1
          else (Inr item, nd', s1))"

text \<open>
  The loop of \<open>Tab.select_all\<close>. It ends in one of two ways, told apart by the flag: by
  the \<open>return results\<close> at the deadline (\<open>True\<close>), or by its test, with results found.
\<close>

function select_all_loop ::
  "browser \<Rightarrow> string \<Rightarrow> int \<Rightarrow> element option \<Rightarrow> nat \<Rightarrow> state
     \<Rightarrow> (exn + bool \<times> element list) \<times> element option \<times> state" where
  "select_all_loop b selector timeout nd now s =
     (case query_selector_all b selector nd (await_tab b s) of
        (Inl e, nd', s1) \<Rightarrow> (Inl e, nd', s1)
      | (Inr results, nd', s1) \<Rightarrow>
          if int (clock s1) - int now > timeout then (Inr (True, results), nd', s1)
          else if results \<noteq> [] then (Inr (False, results), nd', sleep b 500 s1)
          else select_all_loop b selector timeout nd' now (sleep b 500 s1))"
  by pat_completeness auto
termination
proof (relation "measure (\<lambda>(b, selector, timeout, nd, now, s). nat (int now + timeout + 1 - int (clock s)))")
  show "wf (measure (\<lambda>(b, selector, timeout, nd, now, s). nat (int now + timeout + 1 - int (clock s))))"
    by simp
next
  fix b :: browser and selector :: string and timeout :: int and now :: nat and s :: state
    and x :: "exn + element list" and y :: "element option \<times> state"
    and nd nd1 :: "element option" and s1 :: state
  assume q: "(x, y) = query_selector_all b selector nd (await_tab b s)" and y: "(nd1, s1) = y"
    and late: "\<not> timeout < int (clock s1) - int now"
  have mono: "clock s' \<le> clock (snd (snd (query_selector_all_rec d b selector nd' s')))" for d nd' s'
  proof (induction d arbitrary: nd' s')
    case 0
    show ?case by simp
  next
    case (Suc d)
    show ?case
    proof (cases nd')
      case None
      then show ?thesis
        by (auto simp: Let_def send_def suspend_def split: sum.splits)
    next
      case (Some node)
      have step: "clock s' \<le> clock s2" if "update b node (send b c s') = (r, s2)" for c r s2
        using that by (auto simp: update_def send_def suspend_def split: sum.splits)
      show ?thesis
        using Some
        by (auto simp: Let_def split: option.splits sum.splits prod.splits
                 intro: order_trans [OF step Suc.IH] dest: step)
           (auto simp: send_def suspend_def)
    qed
  qed
  have "s1 = snd (snd (query_selector_all b selector nd (await_tab b s)))"
    using q y by (metis snd_conv)
  then have "clock (await_tab b s) \<le> clock s1"
    using mono by (simp add: query_selector_all_def)
  then have "clock s \<le> clock s1"
    by (simp add: await_tab_def suspend_def)
  then show "((b, selector, timeout, nd1, now, sleep b 500 s1), (b, selector, timeout, nd, now, s))
          \<in> measure (\<lambda>(b, selector, timeout, nd, now, s). nat (int now + timeout + 1 - int (clock s)))"
    using late by (simp add: sleep_def suspend_def)
qed

declare select_all_loop.simps [simp del]

text \<open>
  \<open>Tab.select_all(selector, timeout, node_name, _node)\<close>. The filter on the tag name
  applies to what leaves the loop by its test, not to the \<open>return results\<close> inside it.
\<close>

definition name_filter :: "string option \<Rightarrow> element list \<Rightarrow> element list" where
  "name_filter node_name' results =
     (if results = [] then []
      else (case node_name' of
              None \<Rightarrow> results
            | Some nm \<Rightarrow>
                if nm = [] then results
                else filter (\<lambda>item. lower (node_name (e_node item)) = lower nm) results))"

definition select_all ::
  "browser \<Rightarrow> string \<Rightarrow> int \<Rightarrow> string option \<Rightarrow> element option \<Rightarrow> state
     \<Rightarrow> (exn + element list) \<times> element option \<times> state" where
  "select_all b selector timeout node_name' nd s =
     (let now = clock s in
      case query_selector_all b selector nd s of
        (Inl e, nd', s1) \<Rightarrow> (Inl e, nd', s1)
      | (Inr results, nd', s1) \<Rightarrow>
          (case (if timeout \<noteq> 0 \<and> results = []
                 then select_all_loop b selector timeout nd' now s1
                 else (Inr (False, results), nd', s1)) of
             (Inl e, nd'', s2) \<Rightarrow> (Inl e, nd'', s2)
           | (Inr (returned, results'), nd'', s2) \<Rightarrow>
               if returned then (Inr results', nd'', s2)
               else (Inr (name_filter node_name' results'), nd'', s2)))"

text \<open>
  What a trace shows of a polling lookup: the sleeps, in order, and the number of
  selector queries sent.
\<close>

fun sleeps :: "event list \<Rightarrow> nat list" where
  "sleeps [] = []"
| "sleeps (Sleep ms # evs) = ms # sleeps evs"
| "sleeps (ev # evs) = sleeps evs"

fun lookups :: "event list \<Rightarrow> nat" where
  "lookups [] = 0"
| "lookups (Send (DomQuerySelector i sel) # evs) = Suc (lookups evs)"
| "lookups (Send (DomQuerySelectorAll i sel) # evs) = Suc (lookups evs)"
| "lookups (ev # evs) = lookups evs"

text \<open>
  A selector never matches on a browser that always has a document, answers every
  query for the selector with no node, and is called with room for a call.
\<close>

definition never_matches :: "browser \<Rightarrow> string \<Rightarrow> bool" where
  "never_matches b selector =
     ((\<forall>t. \<exists>doc. get_document b t = Inr doc)
      \<and> (\<forall>t i. query_selector_reply b t i selector = Inr 0)
      \<and> (\<forall>t i. query_selector_all_reply b t i selector = Inr [])
      \<and> 0 < recursion_limit b)"

subsection \<open>Script evaluation\<close>

text \<open>
  What \<open>evaluate\<close> and \<open>js_dumps\<close> return: a value, the pair
  \<open>(remote_object, exception_details)\<close>, or \<open>None\<close> where the method falls off its end.
\<close>

datatype 'v outcome =
    Value 'v
  | Objects "remote_object option" "exception_details option"
  | NoResult

text \<open>
  A value is true in a condition when it is there and is not the empty string.
\<close>

definition value_truthy :: "remote_object \<Rightarrow> bool" where
  "value_truthy ro = (case ro_value ro of None \<Rightarrow> False | Some v \<Rightarrow> v \<noteq> [])"

text \<open>
  What \<open>json.loads\<close> gives: a JSON object, as the Python dict of its entries, or a JSON
  value of another kind (a number, a string, a list, a truth value, null).
\<close>

datatype 'v decoded = Dict "(string \<times> 'v) list" | NotDict

text \<open>
  \<open>Tab.evaluate(expression, await_promise, return_by_value)\<close>. The command carries the
  wrapper with \<open>SCRIPT\<close> replaced by the expression. The reply of \<open>send\<close> is \<open>None\<close> (no
  response) or the pair \<open>(remote_object, errors)\<close>; an error payload is raised by \<open>send\<close>
  as a \<open>ProtocolException\<close>, which \<open>evaluate\<close> does not catch.

  \<open>decode\<close> stands for \<open>json.loads(util.get_remote_object_value(remote_object))\<close>:
  \<open>util.get_remote_object_value\<close> is not among the sources. It raises (\<open>Inl\<close>, with the
  message) or gives the decoded value. The \<open>.get("x")\<close> on that value is the entry of a
  dict, \<open>None\<close> where the dict has no such entry, and an \<open>AttributeError\<close> on a value
  that is not a dict.
\<close>

definition evaluate ::
  "(remote_object \<Rightarrow> string + 'v decoded) \<Rightarrow> browser \<Rightarrow> string \<Rightarrow> bool \<Rightarrow> bool \<Rightarrow> state
     \<Rightarrow> (exn + 'v outcome) \<times> state" where
  "evaluate decode b expression await_promise return_by_value s =
     (let s1 = send b (RuntimeEvaluate (Wrapped expression) await_promise return_by_value) s
      in case evaluate_reply b (tick s) (Wrapped expression) await_promise return_by_value of
           Inl m \<Rightarrow> (Inl (ProtocolException m), s1)
         | Inr None \<Rightarrow> (Inl JavascriptSyntaxException, s1)
         | Inr (Some (remote_object, errors)) \<Rightarrow>
             (case errors of
                Some details \<Rightarrow> (Inl (JavascriptException details), s1)
              | None \<Rightarrow>
                  (case remote_object of
                     None \<Rightarrow> (Inr NoResult, s1)
                   | Some ro \<Rightarrow>
                       if return_by_value then
                         if value_truthy ro then
                           (case decode ro of
                              Inl msg \<Rightarrow> (Inl (JSONDecodeError msg), s1)
                            | Inr NotDict \<Rightarrow> (Inl AttributeError, s1)
                            | Inr (Dict entries) \<Rightarrow>
                                (case map_of entries ''x'' of
                                   None \<Rightarrow> (Inr NoResult, s1)
                                 | Some v \<Rightarrow> (Inr (Value v), s1)))
                         else (Inr NoResult, s1)
                       else (Inr (Objects remote_object errors), s1))))"

text \<open>
  \<open>Tab.js_dumps(obj_name, return_by_value)\<close>. It sends the first script, \<open>js_code_a\<close>,
  and unpacks the reply into \<open>remote_object, exception_details\<close> (a reply of \<open>None\<close>
  cannot be unpacked: \<open>TypeError\<close>); on exception details it sends the second script,
  \<open>js_code_b\<close>, and unpacks again; then it raises on exception details, and else returns
  the value or the pair.
\<close>

definition js_dumps ::
  "browser \<Rightarrow> string \<Rightarrow> bool \<Rightarrow> state \<Rightarrow> (exn + string outcome) \<times> state" where
  "js_dumps b obj_name return_by_value s =
     (let s1 = send b (RuntimeEvaluate (JsCodeA obj_name) True return_by_value) s
      in case evaluate_reply b (tick s) (JsCodeA obj_name) True return_by_value of
           Inl m \<Rightarrow> (Inl (ProtocolException m), s1)
         | Inr None \<Rightarrow> (Inl TypeError, s1)
         | Inr (Some (remote_object, exception_details)) \<Rightarrow>
             (case (if exception_details \<noteq> None
                    then (let s2 = send b (RuntimeEvaluate (JsCodeB obj_name) True return_by_value) s1
                          in case evaluate_reply b (tick s1) (JsCodeB obj_name) True return_by_value of
                               Inl m \<Rightarrow> (Inl (ProtocolException m), s2)
                             | Inr None \<Rightarrow> (Inl TypeError, s2)
                             | Inr (Some second) \<Rightarrow> (Inr second, s2))
                    else (Inr (remote_object, exception_details), s1)) of
                (Inl e, s') \<Rightarrow> (Inl e, s')
              | (Inr (remote_object', exception_details'), s') \<Rightarrow>
                  (case exception_details' of
                     Some details \<Rightarrow> (Inl (JavascriptException details), s')
                   | None \<Rightarrow>
                       if return_by_value then
                         (case remote_object' of
                            None \<Rightarrow> (Inl AttributeError, s')
                          | Some ro \<Rightarrow>
                              (case ro_value ro of
                                 None \<Rightarrow> (Inr NoResult, s')
                               | Some v \<Rightarrow>
                                   if v \<noteq> [] then (Inr (Value v), s') else (Inr NoResult, s')))
                       else (Inr (Objects remote_object' exception_details'), s'))))"

text \<open>A reply that reports an exception: a response whose exception details are there.\<close>

definition reports_exception ::
  "string + (remote_object option \<times> exception_details option) option \<Rightarrow> bool" where
  "reports_exception reply =
     (case reply of
        Inr (Some (remote_object, Some details)) \<Rightarrow> True
      | _ \<Rightarrow> False)"

subsection \<open>Text search\<close>

text \<open>
  \<open>Tab.checktextnodeandappend(type, results, elem, text, exact_match)\<close>: the list
  \<open>results\<close> after the call. A \<open>type\<close> of \<open>None\<close> or the empty string is no filter.
\<close>

definition checktextnodeandappend ::
  "browser \<Rightarrow> string option \<Rightarrow> element list \<Rightarrow> element \<Rightarrow> string \<Rightarrow> bool \<Rightarrow> state
     \<Rightarrow> (exn + element list) \<times> state" where
  "checktextnodeandappend b ty results elem txt exact_match s =
     (if node_type (e_node elem) = 3 then
        (case (if parent elem = None then update b elem s else (Inr elem, s)) of
           (Inl e, s1) \<Rightarrow> (Inl e, s1)
         | (Inr elem1, s1) \<Rightarrow>
             (let final = (case parent elem1 of Some p \<Rightarrow> p | None \<Rightarrow> elem1)
              in if ty \<noteq> None \<and> ty \<noteq> Some [] then
                   if issametype (e_node final) (the ty)
                   then (Inr (append_safe results final txt exact_match), s1)
                   else (Inr results, s1)
                 else
                   if \<not> isbanned (e_node final)
                   then (Inr (append_safe results final txt exact_match), s1)
                   else (Inr results, s1)))
      else
        if ty \<noteq> None \<and> ty \<noteq> Some [] then
          if issametype (e_node elem) (the ty)
          then (Inr (append_safe results elem txt exact_match), s)
          else (Inr results, s)
        else
          if \<not> isbanned (e_node elem)
          then (Inr (append_safe results elem txt exact_match), s)
          else (Inr results, s))"

text \<open>
  The scan loop of \<open>Tab.find_element_by_text\<close> over the identifiers of the hits. It ends
  by the \<open>return results[0]\<close> at the top of its body, or by running out of identifiers.
  A hit that the document does not have gives no handle (\<open>element.create\<close> raises, the
  loop goes on).
\<close>

datatype scanned = Returned element | Completed "element list"

fun scan ::
  "browser \<Rightarrow> node \<Rightarrow> string option \<Rightarrow> string \<Rightarrow> bool \<Rightarrow> nat list \<Rightarrow> element list \<Rightarrow> state
     \<Rightarrow> (exn + scanned) \<times> state" where
  "scan b doc ty txt exact_match [] results s = (Inr (Completed results), s)"
| "scan b doc ty txt exact_match (nid # rest) results s =
     (case results of
        first # others \<Rightarrow> (Inr (Returned first), s)
      | [] \<Rightarrow>
          (case filter_recurse doc (\<lambda>n. node_id n = nid) of
             None \<Rightarrow> scan b doc ty txt exact_match rest results s
           | Some nd \<Rightarrow>
               (case checktextnodeandappend b ty results (create nd (Some doc)) txt exact_match s of
                  (Inl e, s1) \<Rightarrow> (Inl e, s1)
                | (Inr results1, s1) \<Rightarrow> scan b doc ty txt exact_match rest results1 s1)))"

text \<open>
  \<open>Tab.find_element_by_text(text, best_match, return_enclosing_element, type,
  exact_match)\<close>. The body reads neither \<open>best_match\<close> nor \<open>return_enclosing_element\<close>.
  \<open>DOM.disable\<close> is sent in the \<open>finally\<close> of the last block only, so not when the loop
  has returned.
\<close>

definition find_element_by_text ::
  "browser \<Rightarrow> string \<Rightarrow> bool \<Rightarrow> bool \<Rightarrow> string option \<Rightarrow> bool \<Rightarrow> state
     \<Rightarrow> (exn + lookup) \<times> state" where
  "find_element_by_text b txt best_match return_enclosing_element ty exact_match s =
     (let s1 = send b DomGetDocument s in
      case get_document b (tick s) of
        Inl m \<Rightarrow> (Inl (ProtocolException m), s1)
      | Inr doc \<Rightarrow>
     (let s2 = send b (DomPerformSearch txt) s1 in
      case perform_search_reply b (tick s1) txt of
        Inl m \<Rightarrow> (Inl (ProtocolException m), s2)
      | Inr (search_id, nresult) \<Rightarrow>
     (let s3 = send b (DomGetSearchResults search_id 0 nresult) s2 in
      case get_search_results_reply b (tick s2) search_id 0 nresult of
        Inl m \<Rightarrow> (Inl (ProtocolException m), s3)
      | Inr node_ids \<Rightarrow>
     (let s4 = send b (DomDiscardSearchResults search_id) s3 in
      case discard_search_results_reply b (tick s3) search_id of
        Inl m \<Rightarrow> (Inl (ProtocolException m), s4)
      | Inr u \<Rightarrow>
          (case scan b doc ty txt exact_match node_ids [] s4 of
             (Inl e, s5) \<Rightarrow> (Inl e, s5)
           | (Inr (Returned first), s5) \<Rightarrow> (Inr (PyElement first), s5)
           | (Inr (Completed results), s5) \<Rightarrow>
               (case disable_reply b (tick s5) of
                  Inl m \<Rightarrow> (Inl (ProtocolException m), send b DomDisable s5)
                | Inr u' \<Rightarrow>
                    (Inr (case results of [] \<Rightarrow> PyNone | elem # others \<Rightarrow> PyElement elem),
                     send b DomDisable s5)))))))"

text \<open>The loop of \<open>Tab.find\<close>, as the one of \<open>Tab.select\<close>.\<close>

function find_loop ::
  "browser \<Rightarrow> string \<Rightarrow> bool \<Rightarrow> bool \<Rightarrow> int \<Rightarrow> string option \<Rightarrow> bool \<Rightarrow> nat \<Rightarrow> state
     \<Rightarrow> (exn + lookup) \<times> state" where
  "find_loop b txt best_match return_enclosing_element timeout ty exact_match now s =
     (case find_element_by_text b txt best_match return_enclosing_element ty exact_match
             (await_tab b s) of
        (Inl e, s1) \<Rightarrow> (Inl e, s1)
      | (Inr item, s1) \<Rightarrow>
          if int (clock s1) - int now > timeout then (Inr PyNone, s1)
          else if truthy item then (Inr item, sleep b 500 s1)
          else find_loop b txt best_match return_enclosing_element timeout ty exact_match now
                 (sleep b 500 s1))"
  by pat_completeness auto
termination
proof (relation "measure (\<lambda>(b, query, bm, ree, timeout, ty, em, now, s).
                            nat (int now + timeout + 1 - int (clock s)))")
  show "wf (measure (\<lambda>(b, query, bm, ree, timeout, ty, em, now, s).
                            nat (int now + timeout + 1 - int (clock s))))"
    by simp
next
  fix b :: browser and query :: string and best_match return_enclosing_element exact_match :: bool
    and timeout :: int and ty :: "string option" and now :: nat and s s1 :: state
    and x :: "exn + lookup" and item :: lookup
  assume q: "(x, s1) = find_element_by_text b query best_match return_enclosing_element ty
                          exact_match (await_tab b s)"
    and late: "\<not> timeout < int (clock s1) - int now"
  have upd: "clock s' \<le> clock (snd (update b e s'))" for e s'
    by (simp add: update_def suspend_def split: sum.splits)
  have chk: "clock s' \<le> clock (snd (checktextnodeandappend b ty rs e query exact_match s'))"
    for rs e s'
    using upd [of s' e]
    by (auto simp: checktextnodeandappend_def Let_def split: prod.splits sum.splits)
  have scn: "clock s' \<le> clock (snd (scan b doc ty query exact_match nids rs s'))" for doc nids rs s'
  proof (induction nids arbitrary: rs s')
    case Nil
    show ?case by simp
  next
    case (Cons nid rest)
    show ?case
    proof (cases rs)
      case (Cons first others)
      then show ?thesis by simp
    next
      case Nil
      show ?thesis
      proof (cases "filter_recurse doc (\<lambda>n. node_id n = nid)")
        case None
        then show ?thesis using Nil Cons.IH by simp
      next
        case (Some nd)
        obtain r s2 where c: "checktextnodeandappend b ty [] (create nd (Some doc)) query exact_match s'
                               = (r, s2)"
          by (cases "checktextnodeandappend b ty [] (create nd (Some doc)) query exact_match s'")
        have "clock s' \<le> clock s2"
          using chk [of s' "[]" "create nd (Some doc)"] c by simp
        moreover have "clock s2 \<le> clock (snd (scan b doc ty query exact_match rest rs1 s2))" for rs1
          by (rule Cons.IH)
        ultimately show ?thesis
          using Nil Some c
          by (cases r) (auto intro: order_trans)
      qed
    qed
  qed
  have fe: "clock s' \<le> clock (snd (find_element_by_text b query best_match return_enclosing_element
                                       ty exact_match s'))" for s'
  proof -
    have A: "clock s' \<le> clock (send b c s'')" if "clock s' \<le> clock s''" for c s''
      using that by (simp add: send_def suspend_def)
    have B: "clock s' \<le> clock s3"
      if "scan b doc ty query exact_match nids rs s'' = (r, s3)" "clock s' \<le> clock s''"
      for doc nids rs s'' r s3
      using order_trans [OF that(2) scn [of s'' doc nids rs]] that(1) by simp
    show ?thesis
      by (auto simp: find_element_by_text_def Let_def
               split: sum.splits prod.splits scanned.splits intro!: A intro: B)
  qed
  have "s1 = snd (find_element_by_text b query best_match return_enclosing_element ty
                          exact_match (await_tab b s))"
    using q by (metis snd_conv)
  then have "clock (await_tab b s) \<le> clock s1"
    using fe by simp
  then have "clock s \<le> clock s1"
    by (simp add: await_tab_def suspend_def)
  then show "((b, query, best_match, return_enclosing_element, timeout, ty, exact_match, now,
               sleep b 500 s1),
              (b, query, best_match, return_enclosing_element, timeout, ty, exact_match, now, s))
          \<in> measure (\<lambda>(b, query, bm, ree, timeout, ty, em, now, s).
                            nat (int now + timeout + 1 - int (clock s)))"
    using late by (simp add: sleep_def suspend_def)
qed

declare find_loop.simps [simp del]

text \<open>
  \<open>Tab.find(text, best_match, return_enclosing_element, timeout, type, exact_match)\<close>.
\<close>

definition find ::
  "browser \<Rightarrow> string \<Rightarrow> bool \<Rightarrow> bool \<Rightarrow> int \<Rightarrow> string option \<Rightarrow> bool \<Rightarrow> state
     \<Rightarrow> (exn + lookup) \<times> state" where
  "find b txt best_match return_enclosing_element timeout ty exact_match s =
     (let now = clock s in
      case find_element_by_text b txt best_match return_enclosing_element ty exact_match s of
        (Inl e, s1) \<Rightarrow> (Inl e, s1)
      | (Inr item, s1) \<Rightarrow>
          if timeout \<noteq> 0 \<and> \<not> truthy item
          then find_loop b txt best_match return_enclosing_element timeout ty exact_match now s1
          else (Inr item, s1))"

text \<open>
  The scan loop without the \<open>return\<close> at the top of its body: the list of all the
  candidates, which a choice of the best match would have to look at.
\<close>

fun accumulate ::
  "browser \<Rightarrow> node \<Rightarrow> string option \<Rightarrow> string \<Rightarrow> bool \<Rightarrow> nat list \<Rightarrow> element list \<Rightarrow> state
     \<Rightarrow> (exn + element list) \<times> state" where
  "accumulate b doc ty txt exact_match [] results s = (Inr results, s)"
| "accumulate b doc ty txt exact_match (nid # rest) results s =
     (case filter_recurse doc (\<lambda>n. node_id n = nid) of
        None \<Rightarrow> accumulate b doc ty txt exact_match rest results s
      | Some nd \<Rightarrow>
          (case checktextnodeandappend b ty results (create nd (Some doc)) txt exact_match s of
             (Inl e, s1) \<Rightarrow> (Inl e, s1)
           | (Inr results1, s1) \<Rightarrow> accumulate b doc ty txt exact_match rest results1 s1))"

text \<open>The first of a list of candidates, as a lookup result.\<close>

definition first_candidate :: "element list \<Rightarrow> lookup" where
  "first_candidate candidates = (case candidates of [] \<Rightarrow> PyNone | elem # others \<Rightarrow> PyElement elem)"

text \<open>The state in which the scan starts: after the four commands of the search.\<close>

definition searched :: "browser \<Rightarrow> string \<Rightarrow> string \<Rightarrow> nat \<Rightarrow> state \<Rightarrow> state" where
  "searched b txt search_id nresult s =
     send b (DomDiscardSearchResults search_id)
       (send b (DomGetSearchResults search_id 0 nresult)
          (send b (DomPerformSearch txt) (send b DomGetDocument s)))"

subsection \<open>Concrete documents, handles and browsers\<close>

text \<open>
  A page \<open><div><a>Login now</a><button>Login</button></div>\<close> with its text nodes, the
  handles of the \<open>div\<close>, the \<open>a\<close> and the \<open>button\<close>, and the state of a fresh session.
\<close>

definition text_node :: node where
  "text_node = Node 9 (Some 8) 3 ''#text'' ''Login now'' [] None"

definition link_node :: node where
  "link_node = Node 8 (Some 7) 1 ''A'' [] [text_node] None"

definition button_text :: node where
  "button_text = Node 11 (Some 10) 3 ''#text'' ''Login'' [] None"

definition button_node :: node where
  "button_node = Node 10 (Some 7) 1 ''BUTTON'' [] [button_text] None"

definition div_node :: node where
  "div_node = Node 7 (Some 1) 1 ''DIV'' [] [link_node, button_node] None"

definition page :: node where
  "page = Node 1 None 9 ''#document'' [] [div_node] None"

definition div_handle :: element where
  "div_handle = create div_node (Some page)"

definition link_handle :: element where
  "link_handle = create link_node (Some page)"

definition button_handle :: element where
  "button_handle = create button_node (Some page)"

definition s0 :: state where
  "s0 = \<lparr>tick = 0, clock = 0, trace = []\<rparr>"

text \<open>
  A browser that answers a selector query with "Could not find node with given id" at
  the ticks below \<open>fails\<close>, and with the identifiers \<open>found\<close> from then on; it answers at
  once and refreshes a handle to itself.
\<close>

definition stale_browser :: "nat \<Rightarrow> nat list \<Rightarrow> browser" where
  "stale_browser fails found = \<lparr>
     latency = (\<lambda>t. 0),
     get_document = (\<lambda>t. Inr page),
     query_selector_reply = (\<lambda>t i sel.
        if t < fails then Inl ''Could not find node with given id''
        else Inr (case found of [] \<Rightarrow> 0 | nid # rest \<Rightarrow> nid)),
     query_selector_all_reply = (\<lambda>t i sel.
        if t < fails then Inl ''Could not find node with given id'' else Inr found),
     perform_search_reply = (\<lambda>t q. Inr ([], 0)),
     get_search_results_reply = (\<lambda>t i from to. Inr []),
     discard_search_results_reply = (\<lambda>t i. Inr ()),
     disable_reply = (\<lambda>t. Inr ()),
     evaluate_reply = (\<lambda>t sc a r. Inr None),
     update_reply = (\<lambda>t e. Inr e),
     recursion_limit = 1000\<rparr>"

text \<open>
  The envelope \<open>JSON.stringify({"x": v})\<close> for the JSON text \<open>v\<close>, and a browser that
  evaluates \<open>1+1\<close> to 2, throws on \<open>throw 1\<close>, gives no response to any other expression,
  throws in the first dump script and answers the second.
\<close>

definition envelope :: "string \<Rightarrow> string" where
  "envelope v = ''{'' @ [CHR 0x22, CHR ''x'', CHR 0x22] @ '':'' @ v @ ''}''"

definition script_browser :: browser where
  "script_browser = (stale_browser 0 [])\<lparr>evaluate_reply := (\<lambda>t sc await_promise return_by_value.
      case sc of
        Wrapped e \<Rightarrow>
          if e = ''1+1'' then Inr (Some (Some \<lparr>ro_value = Some (envelope ''2'')\<rparr>, None))
          else if e = ''throw 1''
          then Inr (Some (Some \<lparr>ro_value = None\<rparr>, Some (ExceptionDetails ''Uncaught 1'')))
          else Inr None
      | JsCodeA obj \<Rightarrow>
          Inr (Some (Some \<lparr>ro_value = None\<rparr>, Some (ExceptionDetails ''Uncaught TypeError'')))
      | JsCodeB obj \<Rightarrow> Inr (Some (Some \<lparr>ro_value = Some ''{}''\<rparr>, None)))\<rparr>"

text \<open>
  A decoder for the values of these browsers: the envelope of a JSON text is the dict
  with that text under \<open>x\<close>, \<open>{}\<close> is the empty dict, \<open>2\<close> is a number, and nothing else
  is JSON. And a browser whose target is gone: it answers an evaluation with an error
  payload.
\<close>

definition loads :: "remote_object \<Rightarrow> string + string decoded" where
  "loads ro =
     (case ro_value ro of
        None \<Rightarrow> Inl ''the JSON object must be str, bytes or bytearray, not NoneType''
      | Some v \<Rightarrow>
          if v = envelope (butlast (drop 5 v)) then Inr (Dict [(''x'', butlast (drop 5 v))])
          else if v = ''{}'' then Inr (Dict [])
          else if v = ''2'' then Inr NotDict
          else Inl ''Expecting value'')"

definition closed_browser :: browser where
  "closed_browser = (stale_browser 0 [])\<lparr>evaluate_reply :=
      (\<lambda>t sc await_promise return_by_value. Inl ''Cannot find context with specified id'')\<rparr>"

text \<open>
  A page with a text node that has no parent, after the \<open>div\<close>, and a browser that finds
  the text node of the link and that node for \<open>Login\<close>, and cannot refresh a handle.
\<close>

definition orphan_text :: node where
  "orphan_text = Node 12 None 3 ''#text'' ''Login here'' [] None"

definition orphan_page :: node where
  "orphan_page = Node 1 None 9 ''#document'' [] [div_node, orphan_text] None"

definition orphan_browser :: browser where
  "orphan_browser = (stale_browser 0 [])\<lparr>
     get_document := (\<lambda>t. Inr orphan_page),
     perform_search_reply := (\<lambda>t q. Inr (''1.1'', 2)),
     get_search_results_reply := (\<lambda>t search_id from_index to_index. Inr [9, 12]),
     update_reply := (\<lambda>t e. Inl ''Could not find node with given id'')\<rparr>"

text \<open>
  A browser whose text search finds the text nodes of the page: both for \<open>Login\<close>, the
  one of the link for \<open>Login now\<close>.
\<close>

definition search_browser :: browser where
  "search_browser = (stale_browser 0 [])\<lparr>
     perform_search_reply := (\<lambda>t q.
        if q = ''Login'' then Inr (''1.1'', 2)
        else if q = ''Login now'' then Inr (''1.2'', 1)
        else Inr (''1.3'', 0)),
     get_search_results_reply := (\<lambda>t search_id from_index to_index.
        if search_id = ''1.1'' then Inr [9, 11]
        else if search_id = ''1.2'' then Inr [9]
        else Inr [])\<rparr>"

section \<open>Properties\<close>

subsection \<open>Parameter encoding\<close>

text \<open>
  C9. The params object of \<open>StorageId.to_json\<close> always has the key \<open>isLocalStorage\<close>,
  has the key \<open>securityOrigin\<close> exactly when \<open>security_origin\<close> is set, has the key
  \<open>storageKey\<close> exactly when \<open>storage_key\<close> is set, has no other key, and stores a
  null under no key: an unset optional field is left out.
\<close>

theorem StorageId_to_json_keys:
  "''isLocalStorage'' \<in> dom (StorageId_to_json self)
   \<and> ((''securityOrigin'' \<in> dom (StorageId_to_json self)) = (security_origin self \<noteq> None))
   \<and> ((''storageKey'' \<in> dom (StorageId_to_json self)) = (storage_key self \<noteq> None))
   \<and> dom (StorageId_to_json self) \<subseteq> {''isLocalStorage'', ''securityOrigin'', ''storageKey''}
   \<and> JNull \<notin> ran (StorageId_to_json self)"
  by (auto simp: StorageId_to_json_def Let_def ran_def split: option.splits if_splits)

theorem StorageId_to_json_keys_witness:
  "dom (StorageId_to_json \<lparr>is_local_storage = True, security_origin = Some ''https://a.test'',
                            storage_key = None\<rparr>)
     = {''isLocalStorage'', ''securityOrigin''}"
  using StorageId_to_json_keys
    [of "\<lparr>is_local_storage = True, security_origin = Some ''https://a.test'', storage_key = None\<rparr>"]
  by (auto simp: StorageId_to_json_def Let_def)

subsection \<open>Text matching\<close>



subsection \<open>Stale-node recovery\<close>

lemma scope_of_setattr [simp]: "scope_of (setattr e k v) = scope_of e"
  by (simp add: scope_of_def setattr_def)

lemma scope_of_dict [simp]: "scope_of (e\<lparr>e_dict := d\<rparr>) = scope_of e"
  by (simp add: scope_of_def)

lemma lower_not_found:
  "str_in ''could not find node'' (lower ''Could not find node with given id'')"
  by (simp add: lower_def lower_char_def)

lemma query_selector_all_rec_swallows:
  "(\<forall>t e. \<exists>e'. update_reply b t e = Inr e') \<Longrightarrow>
   fst (query_selector_all_rec d b sel (Some n) s) \<noteq> Inl (ProtocolException x)"
proof (induction d arbitrary: n s)
  case 0
  then show ?case by simp
next
  case (Suc d)
  obtain e' where e': "update_reply b (Suc (tick s)) n = Inr e'"
    using Suc.prems by blast
  show ?case
    using Suc.IH [OF Suc.prems] e'
    by (auto simp: Let_def update_def send_def suspend_def
             split: option.splits sum.splits prod.splits)
qed

lemma query_selector_rec_swallows:
  "(\<forall>t e. \<exists>e'. update_reply b t e = Inr e') \<Longrightarrow>
   fst (query_selector_rec d b sel (Some n) s) \<noteq> Inl (ProtocolException x)"
proof (induction d arbitrary: n s)
  case 0
  then show ?case by simp
next
  case (Suc d)
  obtain e' where e': "update_reply b (Suc (tick s)) n = Inr e'"
    using Suc.prems by blast
  show ?case
    using Suc.IH [OF Suc.prems] e'
    by (auto simp: Let_def update_def send_def suspend_def
             split: option.splits sum.splits prod.splits)
qed

lemma query_selector_all_retry:
  assumes "scope_of node = Some doc" "\<not> getattr node ''__last''"
    "str_in ''could not find node'' (lower m)"
    "update_reply b (Suc (tick s)) node = Inr fresh" "scope_of fresh = Some doc'"
    "2 \<le> recursion_limit b"
    "query_selector_all_reply b (tick s) (node_id doc) sel = Inl m"
    "query_selector_all_reply b (Suc (Suc (tick s))) (node_id doc') sel = Inr ids"
  shows "\<exists>node' s'.
      query_selector_all b sel (Some node) s = (Inr (collect doc' ids []), Some node', s')
      \<and> trace s' = trace s @ [Send (DomQuerySelectorAll (node_id doc) sel),
                               Update (node_id (e_node node)),
                               Send (DomQuerySelectorAll (node_id doc') sel)]"
proof -
  obtain d where d: "recursion_limit b = Suc (Suc d)"
    using assms(6) by (metis One_nat_def Suc_1 Suc_le_D Suc_le_mono)
  show ?thesis
    using assms(1-5,7,8)
    by (simp add: query_selector_all_def d Let_def update_def send_def suspend_def)
qed

lemma query_selector_retry:
  assumes "scope_of node = Some doc" "\<not> getattr node ''__last''"
    "str_in ''could not find node'' (lower m)"
    "update_reply b (Suc (tick s)) node = Inr fresh" "scope_of fresh = Some doc'"
    "2 \<le> recursion_limit b"
    "query_selector_reply b (tick s) (node_id doc) sel = Inl m"
    "query_selector_reply b (Suc (Suc (tick s))) (node_id doc') sel = Inr nid"
  shows "\<exists>node' s'.
      query_selector b sel (Some node) s = (Inr (resolve doc' nid), Some node', s')
      \<and> trace s' = trace s @ [Send (DomQuerySelector (node_id doc) sel),
                               Update (node_id (e_node node)),
                               Send (DomQuerySelector (node_id doc') sel)]"
proof -
  obtain d where d: "recursion_limit b = Suc (Suc d)"
    using assms(6) by (metis One_nat_def Suc_1 Suc_le_D Suc_le_mono)
  show ?thesis
    using assms(1-5,7,8)
    by (simp add: query_selector_def d Let_def update_def send_def suspend_def)
qed

text \<open>
  C1, as the code has it. A query scoped to a handle whose protocol call fails with a
  message that has "could not find node" refreshes the handle with \<open>update\<close> and sends
  the same query again; when that second query is answered, the handle has been
  refreshed once, the query has been sent twice, and the answer of the second query is
  the result. And the error of a scoped query is not passed on: where \<open>update\<close> does not
  fail, no scoped query ends in a \<open>ProtocolException\<close>.
\<close>

theorem scoped_query_refresh_and_retry:
  "(scope_of node = Some doc \<and> \<not> getattr node ''__last''
      \<and> str_in ''could not find node'' (lower m)
      \<and> update_reply b (Suc (tick s)) node = Inr fresh \<and> scope_of fresh = Some doc'
      \<and> 2 \<le> recursion_limit b
      \<and> query_selector_all_reply b (tick s) (node_id doc) sel = Inl m
      \<and> query_selector_all_reply b (Suc (Suc (tick s))) (node_id doc') sel = Inr ids
    \<longrightarrow> (\<exists>node' s'.
          query_selector_all b sel (Some node) s = (Inr (collect doc' ids []), Some node', s')
          \<and> trace s' = trace s @ [Send (DomQuerySelectorAll (node_id doc) sel),
                                   Update (node_id (e_node node)),
                                   Send (DomQuerySelectorAll (node_id doc') sel)]))
   \<and> (scope_of node = Some doc \<and> \<not> getattr node ''__last''
      \<and> str_in ''could not find node'' (lower m)
      \<and> update_reply b (Suc (tick s)) node = Inr fresh \<and> scope_of fresh = Some doc'
      \<and> 2 \<le> recursion_limit b
      \<and> query_selector_reply b (tick s) (node_id doc) sel = Inl m
      \<and> query_selector_reply b (Suc (Suc (tick s))) (node_id doc') sel = Inr nid
    \<longrightarrow> (\<exists>node' s'.
          query_selector b sel (Some node) s = (Inr (resolve doc' nid), Some node', s')
          \<and> trace s' = trace s @ [Send (DomQuerySelector (node_id doc) sel),
                                   Update (node_id (e_node node)),
                                   Send (DomQuerySelector (node_id doc') sel)]))
   \<and> ((\<forall>t e. \<exists>e'. update_reply b t e = Inr e')
    \<longrightarrow> fst (query_selector_all b sel (Some node) s) \<noteq> Inl (ProtocolException x)
        \<and> fst (query_selector b sel (Some node) s) \<noteq> Inl (ProtocolException x))"
proof (intro conjI impI)
  assume "scope_of node = Some doc \<and> \<not> getattr node ''__last''
      \<and> str_in ''could not find node'' (lower m)
      \<and> update_reply b (Suc (tick s)) node = Inr fresh \<and> scope_of fresh = Some doc'
      \<and> 2 \<le> recursion_limit b
      \<and> query_selector_all_reply b (tick s) (node_id doc) sel = Inl m
      \<and> query_selector_all_reply b (Suc (Suc (tick s))) (node_id doc') sel = Inr ids"
  then show "\<exists>node' s'.
          query_selector_all b sel (Some node) s = (Inr (collect doc' ids []), Some node', s')
          \<and> trace s' = trace s @ [Send (DomQuerySelectorAll (node_id doc) sel),
                                   Update (node_id (e_node node)),
                                   Send (DomQuerySelectorAll (node_id doc') sel)]"
    using query_selector_all_retry by blast
next
  assume "scope_of node = Some doc \<and> \<not> getattr node ''__last''
      \<and> str_in ''could not find node'' (lower m)
      \<and> update_reply b (Suc (tick s)) node = Inr fresh \<and> scope_of fresh = Some doc'
      \<and> 2 \<le> recursion_limit b
      \<and> query_selector_reply b (tick s) (node_id doc) sel = Inl m
      \<and> query_selector_reply b (Suc (Suc (tick s))) (node_id doc') sel = Inr nid"
  then show "\<exists>node' s'.
          query_selector b sel (Some node) s = (Inr (resolve doc' nid), Some node', s')
          \<and> trace s' = trace s @ [Send (DomQuerySelector (node_id doc) sel),
                                   Update (node_id (e_node node)),
                                   Send (DomQuerySelector (node_id doc') sel)]"
    using query_selector_retry by blast
next
  assume "\<forall>t e. \<exists>e'. update_reply b t e = Inr e'"
  then show "fst (query_selector_all b sel (Some node) s) \<noteq> Inl (ProtocolException x)"
    by (simp add: query_selector_all_def query_selector_all_rec_swallows)
next
  assume "\<forall>t e. \<exists>e'. update_reply b t e = Inr e'"
  then show "fst (query_selector b sel (Some node) s) \<noteq> Inl (ProtocolException x)"
    by (simp add: query_selector_def query_selector_rec_swallows)
qed

theorem scoped_query_refresh_and_retry_witness:
  "query_selector_all_reply (stale_browser 1 [8]) 0 7 ''a'' = Inl ''Could not find node with given id''
   \<and> fst (query_selector_all (stale_browser 1 [8]) ''a'' (Some div_handle) s0)
       = Inr [create link_node (Some div_node)]
   \<and> trace (snd (snd (query_selector_all (stale_browser 1 [8]) ''a'' (Some div_handle) s0)))
       = [Send (DomQuerySelectorAll 7 ''a''), Update 7, Send (DomQuerySelectorAll 7 ''a'')]
   \<and> fst (query_selector (stale_browser 1 [8]) ''a'' (Some div_handle) s0)
       = Inr (PyElement (create link_node (Some div_node)))
   \<and> fst (query_selector (stale_browser 4 []) ''a'' (Some div_handle) s0)
       \<noteq> Inl (ProtocolException ''Could not find node with given id'')"
proof -
  let ?b = "stale_browser 1 [8]"
  have sc: "scope_of div_handle = Some div_node"
    by (simp add: scope_of_def div_handle_def create_def div_node_def)
  have fl: "\<not> getattr div_handle ''__last''"
    by (simp add: getattr_def div_handle_def create_def)
  have up: "update_reply ?b (Suc (tick s0)) div_handle = Inr div_handle"
    by (simp add: stale_browser_def)
  have lim: "2 \<le> recursion_limit ?b"
    by (simp add: stale_browser_def)
  have id7: "node_id div_node = 7"
    by (simp add: div_node_def)
  have r1: "query_selector_all_reply ?b (tick s0) (node_id div_node) ''a''
              = Inl ''Could not find node with given id''"
    by (simp add: stale_browser_def s0_def)
  have r2: "query_selector_all_reply ?b (Suc (Suc (tick s0))) (node_id div_node) ''a'' = Inr [8]"
    by (simp add: stale_browser_def s0_def)
  have q1: "query_selector_reply ?b (tick s0) (node_id div_node) ''a''
              = Inl ''Could not find node with given id''"
    by (simp add: stale_browser_def s0_def)
  have q2: "query_selector_reply ?b (Suc (Suc (tick s0))) (node_id div_node) ''a'' = Inr 8"
    by (simp add: stale_browser_def s0_def)
  have c: "collect div_node [8] [] = [create link_node (Some div_node)]"
    by (simp add: div_node_def link_node_def text_node_def)
  have r: "resolve div_node 8 = PyElement (create link_node (Some div_node))"
    by (simp add: resolve_def div_node_def link_node_def text_node_def)
  have u: "\<forall>t e. \<exists>e'. update_reply (stale_browser 4 []) t e = Inr e'"
    by (simp add: stale_browser_def)
  from scoped_query_refresh_and_retry
         [where node = div_handle and doc = div_node and b = ?b and s = s0
            and m = "''Could not find node with given id''" and fresh = div_handle
            and doc' = div_node and sel = "''a''" and ids = "[8]" and nid = 8]
    sc fl lower_not_found up lim r1 r2 q1 q2
  have a: "\<exists>node' s'.
          query_selector_all ?b ''a'' (Some div_handle) s0 = (Inr (collect div_node [8] []), Some node', s')
          \<and> trace s' = trace s0 @ [Send (DomQuerySelectorAll (node_id div_node) ''a''),
                                   Update (node_id (e_node div_handle)),
                                   Send (DomQuerySelectorAll (node_id div_node) ''a'')]"
    and b: "\<exists>node' s'.
          query_selector ?b ''a'' (Some div_handle) s0 = (Inr (resolve div_node 8), Some node', s')
          \<and> trace s' = trace s0 @ [Send (DomQuerySelector (node_id div_node) ''a''),
                                   Update (node_id (e_node div_handle)),
                                   Send (DomQuerySelector (node_id div_node) ''a'')]"
    by blast+
  have e: "node_id (e_node div_handle) = 7"
    by (simp add: div_handle_def create_def div_node_def)
  from scoped_query_refresh_and_retry
         [where b = "stale_browser 4 []" and sel = "''a''" and node = div_handle and s = s0
            and x = "''Could not find node with given id''"] u
  have n: "fst (query_selector (stale_browser 4 []) ''a'' (Some div_handle) s0)
       \<noteq> Inl (ProtocolException ''Could not find node with given id'')"
    by blast
  have t0: "trace s0 = []"
    by (simp add: s0_def)
  have r0: "query_selector_all_reply ?b 0 7 ''a'' = Inl ''Could not find node with given id''"
    by (simp add: stale_browser_def)
  from a [unfolded c id7 e t0] b [unfolded r id7 e t0] n r0 show ?thesis
    by auto
qed

text \<open>
  Against C1 as stated: a scoped \<open>query_selector_all\<close> whose protocol call fails with
  "could not find node" on the first try and again on the retry does not end in that
  protocol error.
\<close>

theorem repeated_stale_failure_not_propagated:
  "query_selector_all_reply (stale_browser 4 []) 0 7 ''a'' = Inl ''Could not find node with given id''
   \<and> query_selector_all_reply (stale_browser 4 []) 2 7 ''a'' = Inl ''Could not find node with given id''
   \<and> fst (query_selector_all (stale_browser 4 []) ''a'' (Some div_handle) s0) = Inr []
   \<and> fst (query_selector_all (stale_browser 4 []) ''a'' (Some div_handle) s0)
        \<noteq> Inl (ProtocolException ''Could not find node with given id'')"
  by (simp add: query_selector_all_def stale_browser_def eval_nat_numeral s0_def div_handle_def
        div_node_def create_def scope_of_def lower_def lower_char_def getattr_def hasattr_def
        update_def setattr_def send_def suspend_def Let_def)

subsection \<open>Polling until the deadline\<close>


lemma sleeps_append: "sleeps (xs @ ys) = sleeps xs @ sleeps ys"
  by (induction xs rule: sleeps.induct) simp_all

lemma lookups_append: "lookups (xs @ ys) = lookups xs + lookups ys"
  by (induction xs rule: lookups.induct) simp_all

lemma query_selector_no_match:
  assumes "never_matches b sel"
  shows "\<exists>doc. query_selector b sel None s
           = (Inr PyNone, None, send b (DomQuerySelector (node_id doc) sel) (send b DomGetDocument s))"
proof -
  obtain n where n: "recursion_limit b = Suc n"
    using assms by (auto simp: never_matches_def gr0_conv_Suc)
  obtain doc where doc: "get_document b (tick s) = Inr doc"
    using assms unfolding never_matches_def by meson
  have "query_selector_reply b (tick (send b DomGetDocument s)) (node_id doc) sel = Inr 0"
    using assms by (simp add: never_matches_def)
  then show ?thesis
    using doc by (intro exI [of _ doc]) (simp add: query_selector_def n Let_def resolve_def)
qed

lemma query_selector_all_no_match:
  assumes "never_matches b sel"
  shows "\<exists>doc. query_selector_all b sel None s
           = (Inr [], None, send b (DomQuerySelectorAll (node_id doc) sel) (send b DomGetDocument s))"
proof -
  obtain n where n: "recursion_limit b = Suc n"
    using assms by (auto simp: never_matches_def gr0_conv_Suc)
  obtain doc where doc: "get_document b (tick s) = Inr doc"
    using assms unfolding never_matches_def by meson
  have "query_selector_all_reply b (tick (send b DomGetDocument s)) (node_id doc) sel = Inr []"
    using assms by (simp add: never_matches_def)
  then show ?thesis
    using doc by (intro exI [of _ doc]) (simp add: query_selector_all_def n Let_def)
qed

lemma select_loop_never:
  assumes nm: "never_matches b sel"
  shows "\<exists>s' ev k. select_loop b sel timeout None now s = (Inr PyNone, None, s')
           \<and> timeout < int (clock s') - int now
           \<and> trace s' = trace s @ ev \<and> sleeps ev = replicate k 500 \<and> lookups ev = Suc k
           \<and> ((\<forall>t. latency b t = 0) \<and> int (clock s) - int now \<le> timeout + 500
                \<longrightarrow> int (clock s') - int now \<le> timeout + 500)"
proof (induction "nat (int now + timeout + 1 - int (clock s))" arbitrary: s rule: less_induct)
  case less
  obtain doc where q: "query_selector b sel None (await_tab b s)
      = (Inr PyNone, None, send b (DomQuerySelector (node_id doc) sel) (send b DomGetDocument (await_tab b s)))"
    using query_selector_no_match [OF nm] by blast
  define s1 where "s1 = send b (DomQuerySelector (node_id doc) sel) (send b DomGetDocument (await_tab b s))"
  let ?ev1 = "[AwaitTab, Send DomGetDocument, Send (DomQuerySelector (node_id doc) sel)]"
  have c1: "clock s \<le> clock s1"
    and t1: "trace s1 = trace s @ ?ev1"
    and z1: "(\<forall>t. latency b t = 0) \<Longrightarrow> clock s1 = clock s"
    by (simp_all add: s1_def send_def suspend_def await_tab_def)
  show ?case
  proof (cases "timeout < int (clock s1) - int now")
    case True
    have "select_loop b sel timeout None now s = (Inr PyNone, None, s1)"
      by (subst select_loop.simps) (simp add: q True flip: s1_def)
    moreover have "sleeps ?ev1 = replicate 0 500" "lookups ?ev1 = Suc 0"
      by simp_all
    ultimately show ?thesis
      using True t1 z1 by (metis (no_types, lifting))
  next
    case False
    define s2 where "s2 = sleep b 500 s1"
    have c2: "clock s2 = clock s1 + latency b (tick s1) + 500"
      and t2: "trace s2 = trace s1 @ [Sleep 500]"
      by (simp_all add: s2_def sleep_def suspend_def)
    have m: "nat (int now + timeout + 1 - int (clock s2)) < nat (int now + timeout + 1 - int (clock s))"
      using False c1 c2 by simp
    from less [OF m] obtain s' ev k where
      r: "select_loop b sel timeout None now s2 = (Inr PyNone, None, s')"
      and d: "timeout < int (clock s') - int now"
      and t: "trace s' = trace s2 @ ev" and sl: "sleeps ev = replicate k 500"
      and lk: "lookups ev = Suc k"
      and z: "(\<forall>t. latency b t = 0) \<and> int (clock s2) - int now \<le> timeout + 500
                \<longrightarrow> int (clock s') - int now \<le> timeout + 500"
      by blast
    have e: "select_loop b sel timeout None now s = (Inr PyNone, None, s')"
      by (subst select_loop.simps) (simp add: q False r flip: s1_def s2_def)
    have t': "trace s' = trace s @ (?ev1 @ Sleep 500 # ev)"
      by (simp add: t t2 t1)
    have sl': "sleeps (?ev1 @ Sleep 500 # ev) = replicate (Suc k) 500"
      by (simp add: sl)
    have lk': "lookups (?ev1 @ Sleep 500 # ev) = Suc (Suc k)"
      by (simp add: lk)
    have z': "(\<forall>t. latency b t = 0) \<and> int (clock s) - int now \<le> timeout + 500
                \<longrightarrow> int (clock s') - int now \<le> timeout + 500"
      using z z1 c2 False by auto
    show ?thesis
      using e d t' sl' lk' z' by blast
  qed
qed

lemma select_all_loop_never:
  assumes nm: "never_matches b sel"
  shows "\<exists>s' ev k. select_all_loop b sel timeout None now s = (Inr (True, []), None, s')
           \<and> timeout < int (clock s') - int now
           \<and> trace s' = trace s @ ev \<and> sleeps ev = replicate k 500 \<and> lookups ev = Suc k
           \<and> ((\<forall>t. latency b t = 0) \<and> int (clock s) - int now \<le> timeout + 500
                \<longrightarrow> int (clock s') - int now \<le> timeout + 500)"
proof (induction "nat (int now + timeout + 1 - int (clock s))" arbitrary: s rule: less_induct)
  case less
  obtain doc where q: "query_selector_all b sel None (await_tab b s)
      = (Inr [], None, send b (DomQuerySelectorAll (node_id doc) sel) (send b DomGetDocument (await_tab b s)))"
    using query_selector_all_no_match [OF nm] by blast
  define s1 where "s1 = send b (DomQuerySelectorAll (node_id doc) sel) (send b DomGetDocument (await_tab b s))"
  let ?ev1 = "[AwaitTab, Send DomGetDocument, Send (DomQuerySelectorAll (node_id doc) sel)]"
  have c1: "clock s \<le> clock s1"
    and t1: "trace s1 = trace s @ ?ev1"
    and z1: "(\<forall>t. latency b t = 0) \<Longrightarrow> clock s1 = clock s"
    by (simp_all add: s1_def send_def suspend_def await_tab_def)
  show ?case
  proof (cases "timeout < int (clock s1) - int now")
    case True
    have "select_all_loop b sel timeout None now s = (Inr (True, []), None, s1)"
      by (subst select_all_loop.simps) (simp add: q True flip: s1_def)
    moreover have "sleeps ?ev1 = replicate 0 500" "lookups ?ev1 = Suc 0"
      by simp_all
    ultimately show ?thesis
      using True t1 z1 by (metis (no_types, lifting))
  next
    case False
    define s2 where "s2 = sleep b 500 s1"
    have c2: "clock s2 = clock s1 + latency b (tick s1) + 500"
      and t2: "trace s2 = trace s1 @ [Sleep 500]"
      by (simp_all add: s2_def sleep_def suspend_def)
    have m: "nat (int now + timeout + 1 - int (clock s2)) < nat (int now + timeout + 1 - int (clock s))"
      using False c1 c2 by simp
    from less [OF m] obtain s' ev k where
      r: "select_all_loop b sel timeout None now s2 = (Inr (True, []), None, s')"
      and d: "timeout < int (clock s') - int now"
      and t: "trace s' = trace s2 @ ev" and sl: "sleeps ev = replicate k 500"
      and lk: "lookups ev = Suc k"
      and z: "(\<forall>t. latency b t = 0) \<and> int (clock s2) - int now \<le> timeout + 500
                \<longrightarrow> int (clock s') - int now \<le> timeout + 500"
      by blast
    have e: "select_all_loop b sel timeout None now s = (Inr (True, []), None, s')"
      by (subst select_all_loop.simps) (simp add: q False r flip: s1_def s2_def)
    have t': "trace s' = trace s @ (?ev1 @ Sleep 500 # ev)"
      by (simp add: t t2 t1)
    have sl': "sleeps (?ev1 @ Sleep 500 # ev) = replicate (Suc k) 500"
      by (simp add: sl)
    have lk': "lookups (?ev1 @ Sleep 500 # ev) = Suc (Suc k)"
      by (simp add: lk)
    have z': "(\<forall>t. latency b t = 0) \<and> int (clock s) - int now \<le> timeout + 500
                \<longrightarrow> int (clock s') - int now \<le> timeout + 500"
      using z z1 c2 False by auto
    show ?thesis
      using e d t' sl' lk' z' by blast
  qed
qed


lemma wait_for_loop_never:
  assumes nm: "never_matches b sel"
  shows "\<exists>s' ev k. wait_for_loop b sel timeout now s = (Inl (ElementWithSelectorNotFoundException sel), s')
           \<and> timeout < int (clock s') - int now
           \<and> trace s' = trace s @ ev \<and> sleeps ev = replicate k 500 \<and> lookups ev = Suc k
           \<and> ((\<forall>t. latency b t = 0) \<and> int (clock s) - int now \<le> timeout + 500
                \<longrightarrow> int (clock s') - int now \<le> timeout + 500)"
proof (induction "nat (int now + timeout + 1 - int (clock s))" arbitrary: s rule: less_induct)
  case less
  obtain doc where q: "query_selector b sel None s
      = (Inr PyNone, None, send b (DomQuerySelector (node_id doc) sel) (send b DomGetDocument s))"
    using query_selector_no_match [OF nm] by blast
  define s1 where "s1 = send b (DomQuerySelector (node_id doc) sel) (send b DomGetDocument s)"
  let ?ev1 = "[Send DomGetDocument, Send (DomQuerySelector (node_id doc) sel)]"
  have c1: "clock s \<le> clock s1"
    and t1: "trace s1 = trace s @ ?ev1"
    and z1: "(\<forall>t. latency b t = 0) \<Longrightarrow> clock s1 = clock s"
    by (simp_all add: s1_def send_def suspend_def send_def)
  show ?case
  proof (cases "timeout < int (clock s1) - int now")
    case True
    have "wait_for_loop b sel timeout now s = (Inl (ElementWithSelectorNotFoundException sel), s1)"
      by (subst wait_for_loop.simps) (simp add: q True flip: s1_def)
    moreover have "sleeps ?ev1 = replicate 0 500" "lookups ?ev1 = Suc 0"
      by simp_all
    ultimately show ?thesis
      using True t1 z1 by (metis (no_types, lifting))
  next
    case False
    define s2 where "s2 = sleep b 500 s1"
    have c2: "clock s2 = clock s1 + latency b (tick s1) + 500"
      and t2: "trace s2 = trace s1 @ [Sleep 500]"
      by (simp_all add: s2_def sleep_def suspend_def)
    have m: "nat (int now + timeout + 1 - int (clock s2)) < nat (int now + timeout + 1 - int (clock s))"
      using False c1 c2 by simp
    from less [OF m] obtain s' ev k where
      r: "wait_for_loop b sel timeout now s2 = (Inl (ElementWithSelectorNotFoundException sel), s')"
      and d: "timeout < int (clock s') - int now"
      and t: "trace s' = trace s2 @ ev" and sl: "sleeps ev = replicate k 500"
      and lk: "lookups ev = Suc k"
      and z: "(\<forall>t. latency b t = 0) \<and> int (clock s2) - int now \<le> timeout + 500
                \<longrightarrow> int (clock s') - int now \<le> timeout + 500"
      by blast
    have e: "wait_for_loop b sel timeout now s = (Inl (ElementWithSelectorNotFoundException sel), s')"
      by (subst wait_for_loop.simps) (simp add: q False r flip: s1_def s2_def)
    have t': "trace s' = trace s @ (?ev1 @ Sleep 500 # ev)"
      by (simp add: t t2 t1)
    have sl': "sleeps (?ev1 @ Sleep 500 # ev) = replicate (Suc k) 500"
      by (simp add: sl)
    have lk': "lookups (?ev1 @ Sleep 500 # ev) = Suc (Suc k)"
      by (simp add: lk)
    have z': "(\<forall>t. latency b t = 0) \<and> int (clock s) - int now \<le> timeout + 500
                \<longrightarrow> int (clock s') - int now \<le> timeout + 500"
      using z z1 c2 False by auto
    show ?thesis
      using e d t' sl' lk' z' by blast
  qed
qed



lemma select_never:
  assumes nm: "never_matches b sel" and pos: "0 < timeout"
  shows "\<exists>s' ev k. select b sel timeout None s = (Inr PyNone, None, s')
           \<and> timeout < int (clock s') - int (clock s)
           \<and> trace s' = trace s @ ev \<and> sleeps ev = replicate k 500 \<and> lookups ev = k + 2
           \<and> ((\<forall>t. latency b t = 0) \<longrightarrow> int (clock s') - int (clock s) \<le> timeout + 500)"
proof -
  obtain doc where q: "query_selector b sel None s
      = (Inr PyNone, None, send b (DomQuerySelector (node_id doc) sel) (send b DomGetDocument s))"
    using query_selector_no_match [OF nm] by blast
  define s1 where "s1 = send b (DomQuerySelector (node_id doc) sel) (send b DomGetDocument s)"
  let ?ev1 = "[Send DomGetDocument, Send (DomQuerySelector (node_id doc) sel)]"
  have t1: "trace s1 = trace s @ ?ev1"
    and z1: "(\<forall>t. latency b t = 0) \<Longrightarrow> clock s1 = clock s"
    by (simp_all add: s1_def send_def suspend_def)
  from select_loop_never [OF nm, of timeout "clock s" s1] obtain s' ev k where
      r: "select_loop b sel timeout None (clock s) s1 = (Inr PyNone, None, s')"
      and d: "timeout < int (clock s') - int (clock s)"
      and t: "trace s' = trace s1 @ ev" and sl: "sleeps ev = replicate k 500"
      and lk: "lookups ev = Suc k"
      and z: "(\<forall>t. latency b t = 0) \<and> int (clock s1) - int (clock s) \<le> timeout + 500
                \<longrightarrow> int (clock s') - int (clock s) \<le> timeout + 500"
    by blast
  have e: "select b sel timeout None s = (Inr PyNone, None, s')"
    using pos by (simp add: select_def q r flip: s1_def)
  have t': "trace s' = trace s @ (?ev1 @ ev)"
    by (simp add: t t1)
  have sl': "sleeps (?ev1 @ ev) = replicate k 500"
    by (simp add: sl)
  have lk': "lookups (?ev1 @ ev) = k + 2"
    by (simp add: lk)
  have z': "(\<forall>t. latency b t = 0) \<longrightarrow> int (clock s') - int (clock s) \<le> timeout + 500"
    using z z1 pos by auto
  show ?thesis
    using e d t' sl' lk' z' by blast
qed

lemma select_all_never:
  assumes nm: "never_matches b sel" and pos: "0 < timeout"
  shows "\<exists>s' ev k. select_all b sel timeout tag None s = (Inr [], None, s')
           \<and> timeout < int (clock s') - int (clock s)
           \<and> trace s' = trace s @ ev \<and> sleeps ev = replicate k 500 \<and> lookups ev = k + 2
           \<and> ((\<forall>t. latency b t = 0) \<longrightarrow> int (clock s') - int (clock s) \<le> timeout + 500)"
proof -
  obtain doc where q: "query_selector_all b sel None s
      = (Inr [], None, send b (DomQuerySelectorAll (node_id doc) sel) (send b DomGetDocument s))"
    using query_selector_all_no_match [OF nm] by blast
  define s1 where "s1 = send b (DomQuerySelectorAll (node_id doc) sel) (send b DomGetDocument s)"
  let ?ev1 = "[Send DomGetDocument, Send (DomQuerySelectorAll (node_id doc) sel)]"
  have t1: "trace s1 = trace s @ ?ev1"
    and z1: "(\<forall>t. latency b t = 0) \<Longrightarrow> clock s1 = clock s"
    by (simp_all add: s1_def send_def suspend_def)
  from select_all_loop_never [OF nm, of timeout "clock s" s1] obtain s' ev k where
      r: "select_all_loop b sel timeout None (clock s) s1 = (Inr (True, []), None, s')"
      and d: "timeout < int (clock s') - int (clock s)"
      and t: "trace s' = trace s1 @ ev" and sl: "sleeps ev = replicate k 500"
      and lk: "lookups ev = Suc k"
      and z: "(\<forall>t. latency b t = 0) \<and> int (clock s1) - int (clock s) \<le> timeout + 500
                \<longrightarrow> int (clock s') - int (clock s) \<le> timeout + 500"
    by blast
  have e: "select_all b sel timeout tag None s = (Inr [], None, s')"
    using pos by (simp add: select_all_def q r flip: s1_def)
  have t': "trace s' = trace s @ (?ev1 @ ev)"
    by (simp add: t t1)
  have sl': "sleeps (?ev1 @ ev) = replicate k 500"
    by (simp add: sl)
  have lk': "lookups (?ev1 @ ev) = k + 2"
    by (simp add: lk)
  have z': "(\<forall>t. latency b t = 0) \<longrightarrow> int (clock s') - int (clock s) \<le> timeout + 500"
    using z z1 pos by auto
  show ?thesis
    using e d t' sl' lk' z' by blast
qed

lemma wait_for_selector_never:
  assumes nm: "never_matches b sel" and pos: "0 \<le> timeout" and sel: "sel \<noteq> []"
  shows "\<exists>s'. wait_for b sel txt timeout s = (Inl (ElementWithSelectorNotFoundException sel), s')
           \<and> timeout < int (clock s') - int (clock s)
           \<and> ((\<forall>t. latency b t = 0) \<longrightarrow> int (clock s') - int (clock s) \<le> timeout + 500)"
proof -
  obtain doc where q: "query_selector b sel None s
      = (Inr PyNone, None, send b (DomQuerySelector (node_id doc) sel) (send b DomGetDocument s))"
    using query_selector_no_match [OF nm] by blast
  define s1 where "s1 = send b (DomQuerySelector (node_id doc) sel) (send b DomGetDocument s)"
  have z1: "(\<forall>t. latency b t = 0) \<Longrightarrow> clock s1 = clock s"
    by (simp_all add: s1_def send_def suspend_def)
  from wait_for_loop_never [OF nm, of timeout "clock s" s1] obtain s' where
      r: "wait_for_loop b sel timeout (clock s) s1 = (Inl (ElementWithSelectorNotFoundException sel), s')"
      and d: "timeout < int (clock s') - int (clock s)"
      and z: "(\<forall>t. latency b t = 0) \<and> int (clock s1) - int (clock s) \<le> timeout + 500
                \<longrightarrow> int (clock s') - int (clock s) \<le> timeout + 500"
    by blast
  have e: "wait_for b sel txt timeout s = (Inl (ElementWithSelectorNotFoundException sel), s')"
    using sel by (simp add: wait_for_def q r flip: s1_def)
  have z': "(\<forall>t. latency b t = 0) \<longrightarrow> int (clock s') - int (clock s) \<le> timeout + 500"
    using z z1 pos by auto
  show ?thesis
    using e d z' by blast
qed

text \<open>
  C4. For a selector that never matches and a positive timeout, \<open>select\<close> returns
  \<open>None\<close> and \<open>select_all\<close> returns the empty list; neither raises. Each returns once
  the time since its start is over the timeout, having slept 500 milliseconds between
  one query and the next (\<open>k\<close> sleeps for \<open>k + 2\<close> queries); where the browser answers
  at once, that is no later than one interval after the timeout.
\<close>

theorem select_never_matches:
  "never_matches b sel \<and> 0 < timeout \<longrightarrow>
     (\<exists>s' ev k. select b sel timeout None s = (Inr PyNone, None, s')
           \<and> timeout < int (clock s') - int (clock s)
           \<and> trace s' = trace s @ ev \<and> sleeps ev = replicate k 500 \<and> lookups ev = k + 2
           \<and> ((\<forall>t. latency b t = 0) \<longrightarrow> int (clock s') - int (clock s) \<le> timeout + 500))
     \<and> (\<exists>s' ev k. select_all b sel timeout tag None s = (Inr [], None, s')
           \<and> timeout < int (clock s') - int (clock s)
           \<and> trace s' = trace s @ ev \<and> sleeps ev = replicate k 500 \<and> lookups ev = k + 2
           \<and> ((\<forall>t. latency b t = 0) \<longrightarrow> int (clock s') - int (clock s) \<le> timeout + 500))"
proof (intro impI conjI)
  assume h: "never_matches b sel \<and> 0 < timeout"
  show "\<exists>s' ev k. select b sel timeout None s = (Inr PyNone, None, s')
           \<and> timeout < int (clock s') - int (clock s)
           \<and> trace s' = trace s @ ev \<and> sleeps ev = replicate k 500 \<and> lookups ev = k + 2
           \<and> ((\<forall>t. latency b t = 0) \<longrightarrow> int (clock s') - int (clock s) \<le> timeout + 500)"
    by (rule select_never [OF conjunct1 [OF h] conjunct2 [OF h]])
next
  assume h: "never_matches b sel \<and> 0 < timeout"
  show "\<exists>s' ev k. select_all b sel timeout tag None s = (Inr [], None, s')
           \<and> timeout < int (clock s') - int (clock s)
           \<and> trace s' = trace s @ ev \<and> sleeps ev = replicate k 500 \<and> lookups ev = k + 2
           \<and> ((\<forall>t. latency b t = 0) \<longrightarrow> int (clock s') - int (clock s) \<le> timeout + 500)"
    by (rule select_all_never [OF conjunct1 [OF h] conjunct2 [OF h]])
qed

theorem select_never_matches_witness:
  "never_matches (stale_browser 0 []) ''#missing'' \<and> (0::int) < 700
   \<and> fst (select (stale_browser 0 []) ''#missing'' 700 None s0) = Inr PyNone
   \<and> fst (select_all (stale_browser 0 []) ''#missing'' 700 None None s0) = Inr []
   \<and> 700 < clock (snd (snd (select (stale_browser 0 []) ''#missing'' 700 None s0)))
   \<and> clock (snd (snd (select (stale_browser 0 []) ''#missing'' 700 None s0))) \<le> 1200"
proof -
  let ?b = "stale_browser 0 []"
  have nm: "never_matches ?b ''#missing''"
    by (simp add: never_matches_def stale_browser_def)
  have z: "\<forall>t. latency ?b t = 0"
    by (simp add: stale_browser_def)
  have c0: "clock s0 = 0"
    by (simp add: s0_def)
  have h: "never_matches ?b ''#missing'' \<and> (0::int) < 700"
    using nm by simp
  note r = select_never_matches [where b = ?b and sel = "''#missing''" and timeout = 700
             and s = s0 and tag = None, rule_format, OF h]
  from r [THEN conjunct1] obtain s' where
    a: "select ?b ''#missing'' 700 None s0 = (Inr PyNone, None, s')"
    and a1: "700 < int (clock s') - int (clock s0)"
    and a2: "(\<forall>t. latency ?b t = 0) \<longrightarrow> int (clock s') - int (clock s0) \<le> 700 + 500"
    by blast
  from r [THEN conjunct2] obtain s'' where
    b: "select_all ?b ''#missing'' 700 None None s0 = (Inr [], None, s'')"
    by blast
  have "700 < clock s'" "clock s' \<le> 1200"
    using a1 a2 z c0 by simp_all
  then show ?thesis
    using nm a b by simp
qed

subsection \<open>The call alias\<close>

text \<open>
  C10. \<open>Tab.__call__(text, selector, timeout)\<close> passes its arguments to \<open>wait_for\<close> by
  position, so its \<open>text\<close> is the \<open>selector\<close> of \<open>wait_for\<close> and its \<open>selector\<close> is the
  \<open>text\<close>. Called with a selector only (the text left empty), it takes no branch of
  \<open>wait_for\<close>: nothing is sent, no time passes, and \<open>None\<close> is returned at once.
\<close>

theorem call_alias_swaps_arguments:
  "Tab_call b txt selector timeout s = wait_for b txt selector timeout s
   \<and> Tab_call b [] selector timeout s = (Inr PyNone, s)"
  by (simp add: Tab_call_def wait_for_def)

theorem call_alias_swaps_arguments_witness:
  "Tab_call (stale_browser 0 [8]) [] ''a'' 10000 s0 = (Inr PyNone, s0)
   \<and> fst (wait_for (stale_browser 0 [8]) ''a'' [] 10000 s0) = Inr (PyElement (create link_node (Some page)))"
proof -
  have "fst (wait_for (stale_browser 0 [8]) ''a'' [] 10000 s0) = Inr (PyElement (create link_node (Some page)))"
    by (simp add: wait_for_def query_selector_def stale_browser_def eval_nat_numeral s0_def
          send_def suspend_def resolve_def page_def div_node_def link_node_def text_node_def Let_def)
  then show ?thesis
    using call_alias_swaps_arguments [of "stale_browser 0 [8]" "[]" "''a''" 10000 s0, THEN conjunct2]
    by simp
qed

subsection \<open>Waiting for a text\<close>

text \<open>
  C2, at the input where the code leaves it: \<open>wait_for\<close> with a text and no selector
  returns \<open>None\<close> at once, with nothing sent and no time passed, where the specification
  has it raise the not-found error after the timeout. (With a selector that never matches it
  does raise it, after the timeout: \<open>wait_for_selector_never\<close>.)
\<close>

theorem wait_for_text_returns_none:
  "wait_for b [] ''Login'' 10000 s = (Inr PyNone, s)
   \<and> wait_for (stale_browser 0 []) [] ''Login'' 10000 s0 = (Inr PyNone, s0)
   \<and> trace (snd (wait_for (stale_browser 0 []) [] ''Login'' 10000 s0)) = []
   \<and> clock (snd (wait_for (stale_browser 0 []) [] ''Login'' 10000 s0)) = 0"
  by (simp add: wait_for_def s0_def)

subsection \<open>Script evaluation and object dumps\<close>


lemma evaluate_reply_cases:
  "fst (evaluate decode b expression await_promise return_by_value s) =
     (case evaluate_reply b (tick s) (Wrapped expression) await_promise return_by_value of
        Inl m \<Rightarrow> Inl (ProtocolException m)
      | Inr None \<Rightarrow> Inl JavascriptSyntaxException
      | Inr (Some (remote_object, Some details)) \<Rightarrow> Inl (JavascriptException details)
      | Inr (Some (None, None)) \<Rightarrow> Inr NoResult
      | Inr (Some (Some ro, None)) \<Rightarrow>
          if return_by_value then
            if value_truthy ro then
              (case decode ro of
                 Inl msg \<Rightarrow> Inl (JSONDecodeError msg)
               | Inr NotDict \<Rightarrow> Inl AttributeError
               | Inr (Dict entries) \<Rightarrow>
                   (case map_of entries ''x'' of None \<Rightarrow> Inr NoResult | Some v \<Rightarrow> Inr (Value v)))
            else Inr NoResult
          else Inr (Objects (Some ro) None))"
  by (simp add: evaluate_def Let_def split: sum.splits option.splits prod.splits decoded.splits)

text \<open>
  C7, as the code has it. \<open>evaluate\<close> raises \<open>JavascriptSyntaxException\<close> exactly when
  the remote call returns no response at all, and raises \<open>JavascriptException\<close> with the
  remote exception details exactly when the response reports an exception. It raises
  besides in two cases and no other: when the remote call itself fails, with the
  \<open>ProtocolException\<close> of \<open>send\<close>, and when the value returned by value is there and its
  decoding fails or gives no dict.
\<close>

theorem evaluate_raises:
  "((fst (evaluate decode b expression await_promise return_by_value s) = Inl JavascriptSyntaxException)
      = (evaluate_reply b (tick s) (Wrapped expression) await_promise return_by_value = Inr None))
   \<and> ((fst (evaluate decode b expression await_promise return_by_value s)
          = Inl (JavascriptException details))
      = (\<exists>ro. evaluate_reply b (tick s) (Wrapped expression) await_promise return_by_value
                 = Inr (Some (ro, Some details))))
   \<and> ((\<exists>e. fst (evaluate decode b expression await_promise return_by_value s) = Inl e)
      = (evaluate_reply b (tick s) (Wrapped expression) await_promise return_by_value = Inr None
         \<or> (\<exists>ro d. evaluate_reply b (tick s) (Wrapped expression) await_promise return_by_value
                      = Inr (Some (ro, Some d)))
         \<or> (\<exists>m. evaluate_reply b (tick s) (Wrapped expression) await_promise return_by_value
                    = Inl m)
         \<or> (\<exists>ro. evaluate_reply b (tick s) (Wrapped expression) await_promise return_by_value
                     = Inr (Some (Some ro, None))
                 \<and> return_by_value \<and> value_truthy ro
                 \<and> (\<forall>entries. decode ro \<noteq> Inr (Dict entries)))))
   \<and> (\<forall>m. evaluate_reply b (tick s) (Wrapped expression) await_promise return_by_value = Inl m
         \<longrightarrow> fst (evaluate decode b expression await_promise return_by_value s)
              = Inl (ProtocolException m))"
proof (intro conjI allI impI)
  show "(fst (evaluate decode b expression await_promise return_by_value s) = Inl JavascriptSyntaxException)
      = (evaluate_reply b (tick s) (Wrapped expression) await_promise return_by_value = Inr None)"
    unfolding evaluate_reply_cases
    by (auto split: sum.splits option.splits prod.splits decoded.splits)
next
  show "(fst (evaluate decode b expression await_promise return_by_value s)
          = Inl (JavascriptException details))
      = (\<exists>ro. evaluate_reply b (tick s) (Wrapped expression) await_promise return_by_value
                 = Inr (Some (ro, Some details)))"
    unfolding evaluate_reply_cases
    by (auto split: sum.splits option.splits prod.splits decoded.splits)
next
  show "(\<exists>e. fst (evaluate decode b expression await_promise return_by_value s) = Inl e)
      = (evaluate_reply b (tick s) (Wrapped expression) await_promise return_by_value = Inr None
         \<or> (\<exists>ro d. evaluate_reply b (tick s) (Wrapped expression) await_promise return_by_value
                      = Inr (Some (ro, Some d)))
         \<or> (\<exists>m. evaluate_reply b (tick s) (Wrapped expression) await_promise return_by_value
                    = Inl m)
         \<or> (\<exists>ro. evaluate_reply b (tick s) (Wrapped expression) await_promise return_by_value
                     = Inr (Some (Some ro, None))
                 \<and> return_by_value \<and> value_truthy ro
                 \<and> (\<forall>entries. decode ro \<noteq> Inr (Dict entries))))"
    unfolding evaluate_reply_cases
    by (auto split: sum.splits option.splits prod.splits decoded.splits)
next
  fix m
  assume "evaluate_reply b (tick s) (Wrapped expression) await_promise return_by_value = Inl m"
  then show "fst (evaluate decode b expression await_promise return_by_value s)
              = Inl (ProtocolException m)"
    by (simp add: evaluate_reply_cases)
qed

lemma loads_envelope: "loads \<lparr>ro_value = Some (envelope ''2'')\<rparr> = Inr (Dict [(''x'', ''2'')])"
  by (simp add: loads_def envelope_def)

theorem evaluate_raises_witness:
  "fst (evaluate loads script_browser ''1+1'' False True s0) = Inr (Value ''2'')
   \<and> fst (evaluate loads script_browser ''throw 1'' False True s0)
        = Inl (JavascriptException (ExceptionDetails ''Uncaught 1''))
   \<and> fst (evaluate loads script_browser ''('' False True s0) = Inl JavascriptSyntaxException
   \<and> fst (evaluate loads closed_browser ''1+1'' False True s0)
        = Inl (ProtocolException ''Cannot find context with specified id'')"
proof -
  have r1: "evaluate_reply script_browser (tick s0) (Wrapped ''1+1'') False True
              = Inr (Some (Some \<lparr>ro_value = Some (envelope ''2'')\<rparr>, None))"
    and r2: "evaluate_reply script_browser (tick s0) (Wrapped ''throw 1'') False True
              = Inr (Some (Some \<lparr>ro_value = None\<rparr>, Some (ExceptionDetails ''Uncaught 1'')))"
    and r3: "evaluate_reply script_browser (tick s0) (Wrapped ''('') False True = Inr None"
    by (simp_all add: script_browser_def)
  have r4: "evaluate_reply closed_browser (tick s0) (Wrapped ''1+1'') False True
              = Inl ''Cannot find context with specified id''"
    by (simp add: closed_browser_def)
  have t: "value_truthy \<lparr>ro_value = Some (envelope ''2'')\<rparr>"
    by (simp add: value_truthy_def envelope_def)
  have a: "fst (evaluate loads script_browser ''1+1'' False True s0) = Inr (Value ''2'')"
    by (simp add: evaluate_reply_cases r1 t loads_envelope)
  note main = evaluate_raises [where decode = loads and s = s0 and await_promise = False
                and return_by_value = True]
  from main [where b = script_browser and expression = "''throw 1''"
               and details = "ExceptionDetails ''Uncaught 1''", THEN conjunct2, THEN conjunct1] r2
  have b: "fst (evaluate loads script_browser ''throw 1'' False True s0)
        = Inl (JavascriptException (ExceptionDetails ''Uncaught 1''))"
    by simp
  from main [where b = script_browser and expression = "''(''", THEN conjunct1] r3
  have c: "fst (evaluate loads script_browser ''('' False True s0) = Inl JavascriptSyntaxException"
    by simp
  from main [where b = closed_browser and expression = "''1+1''",
             THEN conjunct2, THEN conjunct2, THEN conjunct2, rule_format, OF r4]
  have d: "fst (evaluate loads closed_browser ''1+1'' False True s0)
        = Inl (ProtocolException ''Cannot find context with specified id'')" .
  from a b c d show ?thesis by simp
qed

text \<open>
  Against C7 as stated: a remote call that is answered with an error payload is not a
  call that returns no response, and its response reports no exception, and \<open>evaluate\<close>
  raises: the \<open>ProtocolException\<close> of \<open>send\<close>, which is neither of the two errors named.
\<close>

theorem evaluate_raises_protocol_error:
  "evaluate_reply closed_browser (tick s0) (Wrapped ''1+1'') False True \<noteq> Inr None
   \<and> \<not> reports_exception (evaluate_reply closed_browser (tick s0) (Wrapped ''1+1'') False True)
   \<and> fst (evaluate loads closed_browser ''1+1'' False True s0)
        = Inl (ProtocolException ''Cannot find context with specified id'')
   \<and> fst (evaluate loads closed_browser ''1+1'' False True s0) \<noteq> Inl JavascriptSyntaxException
   \<and> fst (evaluate loads closed_browser ''1+1'' False True s0)
        \<noteq> Inl (JavascriptException (ExceptionDetails ''Cannot find context with specified id''))"
  by (simp add: evaluate_def closed_browser_def reports_exception_def Let_def)

text \<open>
  C8. \<open>js_dumps\<close> sends the first script; it sends the second script exactly when the
  reply to the first reports exception details; and it raises \<open>JavascriptException\<close>
  exactly when the reply to the first reports exception details and the reply to the
  second reports them too (the details raised are the second's). An exception of the
  first script alone does not reach the caller.
\<close>

theorem js_dumps_fallback:
  "trace (snd (js_dumps b obj_name return_by_value s))
     = trace s @ Send (RuntimeEvaluate (JsCodeA obj_name) True return_by_value)
         # (if reports_exception (evaluate_reply b (tick s) (JsCodeA obj_name) True return_by_value)
            then [Send (RuntimeEvaluate (JsCodeB obj_name) True return_by_value)] else [])
   \<and> ((fst (js_dumps b obj_name return_by_value s) = Inl (JavascriptException details))
        = (reports_exception (evaluate_reply b (tick s) (JsCodeA obj_name) True return_by_value)
           \<and> (\<exists>ro. evaluate_reply b (Suc (tick s)) (JsCodeB obj_name) True return_by_value
                      = Inr (Some (ro, Some details)))))"
  by (auto simp: js_dumps_def reports_exception_def Let_def send_def suspend_def
           split: option.splits prod.splits sum.splits)

theorem js_dumps_fallback_witness:
  "reports_exception (evaluate_reply script_browser (tick s0) (JsCodeA ''window'') True True)
   \<and> js_dumps script_browser ''window'' True s0
       = (Inr (Value ''{}''),
          \<lparr>tick = 2, clock = 0,
             trace = [Send (RuntimeEvaluate (JsCodeA ''window'') True True),
                      Send (RuntimeEvaluate (JsCodeB ''window'') True True)]\<rparr>)"
proof -
  have r: "reports_exception (evaluate_reply script_browser (tick s0) (JsCodeA ''window'') True True)"
    by (simp add: reports_exception_def script_browser_def)
  have v: "js_dumps script_browser ''window'' True s0
       = (Inr (Value ''{}''),
          \<lparr>tick = 2, clock = 0,
             trace = [Send (RuntimeEvaluate (JsCodeA ''window'') True True),
                      Send (RuntimeEvaluate (JsCodeB ''window'') True True)]\<rparr>)"
    by (simp add: js_dumps_def script_browser_def stale_browser_def s0_def send_def suspend_def
          value_truthy_def Let_def)
  from js_dumps_fallback [of script_browser "''window''" True s0] r v show ?thesis
    by simp
qed

subsection \<open>Text search\<close>


lemma checktextnodeandappend_extends:
  "checktextnodeandappend b ty rs e txt em s = (Inr rs', s') \<Longrightarrow> \<exists>more. rs' = rs @ more"
  by (auto simp: checktextnodeandappend_def append_safe_def Let_def
           split: if_splits prod.splits sum.splits)

lemma accumulate_extends:
  "accumulate b doc ty txt em nids rs s = (Inr cs, s') \<Longrightarrow> \<exists>more. cs = rs @ more"
proof (induction nids arbitrary: rs s)
  case Nil
  then show ?case by simp
next
  case (Cons nid rest)
  show ?case
  proof (cases "filter_recurse doc (\<lambda>n. node_id n = nid)")
    case None
    then show ?thesis using Cons by simp
  next
    case (Some nd)
    obtain r s1 where c: "checktextnodeandappend b ty rs (create nd (Some doc)) txt em s = (r, s1)"
      by (cases "checktextnodeandappend b ty rs (create nd (Some doc)) txt em s")
    show ?thesis
    proof (cases r)
      case (Inl e)
      then show ?thesis using Cons.prems Some c by simp
    next
      case (Inr rs1)
      then have "accumulate b doc ty txt em rest rs1 s1 = (Inr cs, s')"
        using Cons.prems Some c by simp
      then obtain more1 where "cs = rs1 @ more1"
        using Cons.IH by blast
      moreover obtain more0 where "rs1 = rs @ more0"
        using checktextnodeandappend_extends c Inr by blast
      ultimately show ?thesis by simp
    qed
  qed
qed

lemma scan_first:
  "accumulate b doc ty txt em nids rs s = (Inr cs, s') \<Longrightarrow>
   \<exists>res s''. scan b doc ty txt em nids rs s = (Inr res, s'')
      \<and> (case res of Returned e \<Rightarrow> PyElement e | Completed rs' \<Rightarrow> first_candidate rs')
          = first_candidate cs"
proof (induction nids arbitrary: rs s)
  case Nil
  then show ?case by simp
next
  case (Cons nid rest)
  show ?case
  proof (cases rs)
    case (Cons first others)
    obtain more where "cs = rs @ more"
      using accumulate_extends Cons.prems by blast
    then show ?thesis
      using Cons by (simp add: first_candidate_def)
  next
    case Nil
    show ?thesis
    proof (cases "filter_recurse doc (\<lambda>n. node_id n = nid)")
      case None
      then show ?thesis using Cons.prems Cons.IH Nil by simp
    next
      case (Some nd)
      obtain r s1 where c: "checktextnodeandappend b ty [] (create nd (Some doc)) txt em s = (r, s1)"
        by (cases "checktextnodeandappend b ty [] (create nd (Some doc)) txt em s")
      show ?thesis
      proof (cases r)
        case (Inl e)
        then show ?thesis using Cons.prems Some c Nil by simp
      next
        case (Inr rs1)
        then have "accumulate b doc ty txt em rest rs1 s1 = (Inr cs, s')"
          using Cons.prems Some c Nil by simp
        from Cons.IH [OF this] show ?thesis
          using Some c Nil Inr by simp
      qed
    qed
  qed
qed

lemma find_element_by_text_first:
  assumes "get_document b (tick s) = Inr doc"
    "perform_search_reply b (Suc (tick s)) txt = Inr (sid, n)"
    "get_search_results_reply b (Suc (Suc (tick s))) sid 0 n = Inr node_ids"
    "discard_search_results_reply b (Suc (Suc (Suc (tick s)))) sid = Inr ()"
    "\<forall>t. disable_reply b t = Inr ()"
    "accumulate b doc ty txt em node_ids [] (searched b txt sid n s) = (Inr candidates, s')"
  shows "fst (find_element_by_text b txt best_match ree ty em s) = Inr (first_candidate candidates)"
proof -
  from scan_first [OF assms(6)] obtain res s'' where
    sc: "scan b doc ty txt em node_ids [] (searched b txt sid n s) = (Inr res, s'')"
    and f: "(case res of Returned e \<Rightarrow> PyElement e | Completed rs' \<Rightarrow> first_candidate rs')
          = first_candidate candidates"
    by blast
  have t: "tick (send b c s0) = Suc (tick s0)" for c s0
    by (simp add: send_def suspend_def)
  show ?thesis
    using assms(1-5) sc f
    by (cases res) (simp_all add: find_element_by_text_def Let_def t first_candidate_def
                       flip: searched_def)
qed


lemma scan_skips:
  "accumulate b doc ty txt em pre [] s = (Inr [], s1) \<Longrightarrow>
   scan b doc ty txt em (pre @ rest) [] s = scan b doc ty txt em rest [] s1"
proof (induction pre arbitrary: s)
  case Nil
  then show ?case by simp
next
  case (Cons nid pre)
  show ?case
  proof (cases "filter_recurse doc (\<lambda>n. node_id n = nid)")
    case None
    then show ?thesis using Cons by simp
  next
    case (Some nd)
    obtain r s2 where c: "checktextnodeandappend b ty [] (create nd (Some doc)) txt em s = (r, s2)"
      by (cases "checktextnodeandappend b ty [] (create nd (Some doc)) txt em s")
    show ?thesis
    proof (cases r)
      case (Inl e)
      then show ?thesis using Cons.prems Some c by simp
    next
      case (Inr rs1)
      then have a: "accumulate b doc ty txt em pre rs1 s2 = (Inr [], s1)"
        using Cons.prems Some c by simp
      then have "rs1 = []"
        using accumulate_extends by fastforce
      then show ?thesis
        using a Some c Inr Cons.IH by simp
    qed
  qed
qed

lemma scan_returns_early:
  assumes "accumulate b doc ty txt em [nid] [] s1 = (Inr (first # others), s2)"
  shows "scan b doc ty txt em (nid # next_id # post) [] s1 = (Inr (Returned first), s2)"
  using assms by (auto split: option.splits prod.splits sum.splits)

lemma find_element_by_text_early:
  assumes "get_document b (tick s) = Inr doc"
    "perform_search_reply b (Suc (tick s)) txt = Inr (sid, n)"
    "get_search_results_reply b (Suc (Suc (tick s))) sid 0 n = Inr (pre @ nid # next_id # post)"
    "discard_search_results_reply b (Suc (Suc (Suc (tick s)))) sid = Inr ()"
    "accumulate b doc ty txt em pre [] (searched b txt sid n s) = (Inr [], s1)"
    "accumulate b doc ty txt em [nid] [] s1 = (Inr (first # others), s2)"
  shows "find_element_by_text b txt best_match ree ty em s = (Inr (PyElement first), s2)"
proof -
  have sc: "scan b doc ty txt em (pre @ nid # next_id # post) [] (searched b txt sid n s)
          = (Inr (Returned first), s2)"
    using scan_skips [OF assms(5)] scan_returns_early [OF assms(6)] by simp
  have t: "tick (send b c s0) = Suc (tick s0)" for c s0
    by (simp add: send_def suspend_def)
  show ?thesis
    using assms(1-4) sc
    by (simp add: find_element_by_text_def Let_def t flip: searched_def)
qed

text \<open>
  C5. \<open>find_element_by_text\<close> gives the same result for \<open>best_match\<close> true and false.
  It returns as soon as its scan has a candidate: where a hit is the first to give
  candidates and another hit follows it, the result is the first of these candidates and
  the state is the one in which it was appended, so the hits that follow are not looked
  at and \<open>DOM.disable\<close> is not sent. And where the scan of all the hits goes through, the
  result is the first candidate of them all (or \<open>None\<close> without candidates): no choice by
  the length of the text is made among the candidates.
\<close>

theorem find_element_by_text_first_candidate:
  "find_element_by_text b txt True ree ty em s = find_element_by_text b txt False ree ty em s
   \<and> (get_document b (tick s) = Inr doc
       \<and> perform_search_reply b (Suc (tick s)) txt = Inr (sid, n)
       \<and> get_search_results_reply b (Suc (Suc (tick s))) sid 0 n = Inr (pre @ nid # next_id # post)
       \<and> discard_search_results_reply b (Suc (Suc (Suc (tick s)))) sid = Inr ()
       \<and> accumulate b doc ty txt em pre [] (searched b txt sid n s) = (Inr [], s1)
       \<and> accumulate b doc ty txt em [nid] [] s1 = (Inr (first # others), s2)
      \<longrightarrow> find_element_by_text b txt best_match ree ty em s = (Inr (PyElement first), s2))
   \<and> (get_document b (tick s) = Inr doc
       \<and> perform_search_reply b (Suc (tick s)) txt = Inr (sid, n)
       \<and> get_search_results_reply b (Suc (Suc (tick s))) sid 0 n = Inr node_ids
       \<and> discard_search_results_reply b (Suc (Suc (Suc (tick s)))) sid = Inr ()
       \<and> (\<forall>t. disable_reply b t = Inr ())
       \<and> accumulate b doc ty txt em node_ids [] (searched b txt sid n s) = (Inr candidates, s')
      \<longrightarrow> fst (find_element_by_text b txt best_match ree ty em s) = Inr (first_candidate candidates))"
proof (intro conjI impI)
  show "find_element_by_text b txt True ree ty em s = find_element_by_text b txt False ree ty em s"
    by (simp add: find_element_by_text_def)
next
  assume "get_document b (tick s) = Inr doc
       \<and> perform_search_reply b (Suc (tick s)) txt = Inr (sid, n)
       \<and> get_search_results_reply b (Suc (Suc (tick s))) sid 0 n = Inr (pre @ nid # next_id # post)
       \<and> discard_search_results_reply b (Suc (Suc (Suc (tick s)))) sid = Inr ()
       \<and> accumulate b doc ty txt em pre [] (searched b txt sid n s) = (Inr [], s1)
       \<and> accumulate b doc ty txt em [nid] [] s1 = (Inr (first # others), s2)"
  then show "find_element_by_text b txt best_match ree ty em s = (Inr (PyElement first), s2)"
    using find_element_by_text_early by blast
next
  assume "get_document b (tick s) = Inr doc
       \<and> perform_search_reply b (Suc (tick s)) txt = Inr (sid, n)
       \<and> get_search_results_reply b (Suc (Suc (tick s))) sid 0 n = Inr node_ids
       \<and> discard_search_results_reply b (Suc (Suc (Suc (tick s)))) sid = Inr ()
       \<and> (\<forall>t. disable_reply b t = Inr ())
       \<and> accumulate b doc ty txt em node_ids [] (searched b txt sid n s) = (Inr candidates, s')"
  then show "fst (find_element_by_text b txt best_match ree ty em s) = Inr (first_candidate candidates)"
    using find_element_by_text_first by blast
qed

lemma parent_text_node: "parent (create text_node (Some page)) = Some link_handle"
  by (simp add: parent_def create_def text_node_def page_def div_node_def link_node_def
        link_handle_def)

lemma parent_button_text: "parent (create button_text (Some page)) = Some button_handle"
  by (simp add: parent_def create_def button_text_def page_def div_node_def link_node_def
        text_node_def button_node_def button_handle_def)

lemma not_banned_link: "\<not> isbanned (e_node link_handle)"
  by (simp add: isbanned_def link_handle_def create_def link_node_def lower_def lower_char_def
        bannedtextsearchresults_def)

lemma not_banned_button: "\<not> isbanned (e_node button_handle)"
  by (simp add: isbanned_def button_handle_def create_def button_node_def lower_def lower_char_def
        bannedtextsearchresults_def)

lemma resolve_hits:
  "filter_recurse page (\<lambda>n. node_id n = 9) = Some text_node"
  "filter_recurse page (\<lambda>n. node_id n = 11) = Some button_text"
  by (simp_all add: page_def div_node_def link_node_def text_node_def button_node_def
        button_text_def)

lemma check_text_hit:
  "checktextnodeandappend b None rs (create text_node (Some page)) q False s
     = (Inr (rs @ [link_handle]), s)"
proof -
  have "node_type (e_node (create text_node (Some page))) = 3"
    by (simp add: create_def text_node_def)
  then show ?thesis
    by (simp add: checktextnodeandappend_def parent_text_node not_banned_link append_safe_def)
qed

lemma check_button_hit:
  "checktextnodeandappend b None rs (create button_text (Some page)) q False s
     = (Inr (rs @ [button_handle]), s)"
proof -
  have "node_type (e_node (create button_text (Some page))) = 3"
    by (simp add: create_def button_text_def)
  then show ?thesis
    by (simp add: checktextnodeandappend_def parent_button_text not_banned_button append_safe_def)
qed

lemma orphan_hits:
  "filter_recurse orphan_page (\<lambda>n. node_id n = 9) = Some text_node"
  "filter_recurse orphan_page (\<lambda>n. node_id n = 12) = Some orphan_text"
  by (simp_all add: orphan_page_def orphan_text_def div_node_def link_node_def text_node_def
        button_node_def button_text_def)

lemma orphan_link_parent:
  "parent (create text_node (Some orphan_page)) = Some (create link_node (Some orphan_page))"
  by (simp add: parent_def create_def text_node_def orphan_page_def div_node_def link_node_def)

lemma orphan_no_parent: "parent (create orphan_text (Some orphan_page)) = None"
  by (simp add: parent_def create_def orphan_text_def)

lemma orphan_check_link:
  "checktextnodeandappend b None rs (create text_node (Some orphan_page)) q False s
     = (Inr (rs @ [create link_node (Some orphan_page)]), s)"
proof -
  have "node_type (e_node (create text_node (Some orphan_page))) = 3"
    by (simp add: create_def text_node_def)
  moreover have "\<not> isbanned (e_node (create link_node (Some orphan_page)))"
    by (simp add: isbanned_def create_def link_node_def lower_def lower_char_def
          bannedtextsearchresults_def)
  ultimately show ?thesis
    by (simp add: checktextnodeandappend_def orphan_link_parent append_safe_def)
qed

lemma orphan_check_fails:
  "fst (checktextnodeandappend orphan_browser None rs (create orphan_text (Some orphan_page))
          q False s) = Inl (ProtocolException ''Could not find node with given id'')"
proof -
  have "node_type (e_node (create orphan_text (Some orphan_page))) = 3"
    by (simp add: create_def orphan_text_def)
  then show ?thesis
    by (simp add: checktextnodeandappend_def orphan_no_parent update_def orphan_browser_def)
qed

theorem find_element_by_text_first_candidate_witness:
  "fst (accumulate search_browser page None ''Login'' False [9, 11] []
          (searched search_browser ''Login'' ''1.1'' 2 s0)) = Inr [link_handle, button_handle]
   \<and> fst (find_element_by_text search_browser ''Login'' True True None False s0)
        = Inr (PyElement link_handle)
   \<and> text_of link_handle = ''Login now'' \<and> text_of button_handle = ''Login''
   \<and> fst (accumulate orphan_browser orphan_page None ''Login'' False [9, 12] []
          (searched orphan_browser ''Login'' ''1.1'' 2 s0))
        = Inl (ProtocolException ''Could not find node with given id'')
   \<and> find_element_by_text orphan_browser ''Login'' True True None False s0
        = (Inr (PyElement (create link_node (Some orphan_page))),
           \<lparr>tick = 4, clock = 0,
              trace = [Send DomGetDocument, Send (DomPerformSearch ''Login''),
                       Send (DomGetSearchResults ''1.1'' 0 2),
                       Send (DomDiscardSearchResults ''1.1'')]\<rparr>)"
proof -
  let ?b = search_browser
  have acc: "accumulate ?b page None ''Login'' False [9, 11] [] (searched ?b ''Login'' ''1.1'' 2 s0)
               = (Inr [link_handle, button_handle], searched ?b ''Login'' ''1.1'' 2 s0)"
    by (simp add: resolve_hits check_text_hit check_button_hit)
  have h: "get_document ?b (tick s0) = Inr page
       \<and> perform_search_reply ?b (Suc (tick s0)) ''Login'' = Inr (''1.1'', 2)
       \<and> get_search_results_reply ?b (Suc (Suc (tick s0))) ''1.1'' 0 2 = Inr [9, 11]
       \<and> discard_search_results_reply ?b (Suc (Suc (Suc (tick s0)))) ''1.1'' = Inr ()
       \<and> (\<forall>t. disable_reply ?b t = Inr ())
       \<and> accumulate ?b page None ''Login'' False [9, 11] [] (searched ?b ''Login'' ''1.1'' 2 s0)
           = (Inr [link_handle, button_handle], searched ?b ''Login'' ''1.1'' 2 s0)"
    using acc by (simp add: search_browser_def stale_browser_def)
  have first: "fst (find_element_by_text ?b ''Login'' True True None False s0)
          = Inr (first_candidate [link_handle, button_handle])"
    using find_element_by_text_first_candidate
            [THEN conjunct2, THEN conjunct2, rule_format, OF h] .
  have texts: "text_of link_handle = ''Login now''" "text_of button_handle = ''Login''"
    by (simp_all add: text_of_def link_handle_def button_handle_def create_def link_node_def
          text_node_def button_node_def button_text_def)
  let ?o = orphan_browser
  let ?s4 = "searched ?o ''Login'' ''1.1'' 2 s0"
  have s4: "?s4 = \<lparr>tick = 4, clock = 0,
              trace = [Send DomGetDocument, Send (DomPerformSearch ''Login''),
                       Send (DomGetSearchResults ''1.1'' 0 2),
                       Send (DomDiscardSearchResults ''1.1'')]\<rparr>"
    by (simp add: searched_def send_def suspend_def s0_def orphan_browser_def stale_browser_def)
  have one: "accumulate ?o orphan_page None ''Login'' False [9] [] ?s4
               = (Inr [create link_node (Some orphan_page)], ?s4)"
    by (simp add: orphan_hits orphan_check_link)
  obtain e sx where chk: "checktextnodeandappend ?o None [create link_node (Some orphan_page)]
            (create orphan_text (Some orphan_page)) ''Login'' False ?s4
          = (Inl (ProtocolException ''Could not find node with given id''), sx)"
    using orphan_check_fails
            [of "[create link_node (Some orphan_page)]" "''Login''" ?s4]
    by (cases "checktextnodeandappend ?o None [create link_node (Some orphan_page)]
            (create orphan_text (Some orphan_page)) ''Login'' False ?s4") simp
  have all: "fst (accumulate ?o orphan_page None ''Login'' False [9, 12] [] ?s4)
        = Inl (ProtocolException ''Could not find node with given id'')"
    by (simp add: orphan_hits orphan_check_link chk)
  have g: "get_document ?o (tick s0) = Inr orphan_page
       \<and> perform_search_reply ?o (Suc (tick s0)) ''Login'' = Inr (''1.1'', 2)
       \<and> get_search_results_reply ?o (Suc (Suc (tick s0))) ''1.1'' 0 2 = Inr ([] @ 9 # 12 # [])
       \<and> discard_search_results_reply ?o (Suc (Suc (Suc (tick s0)))) ''1.1'' = Inr ()
       \<and> accumulate ?o orphan_page None ''Login'' False [] [] ?s4 = (Inr [], ?s4)
       \<and> accumulate ?o orphan_page None ''Login'' False [9] [] ?s4
           = (Inr (create link_node (Some orphan_page) # []), ?s4)"
    using one by (simp add: orphan_browser_def stale_browser_def)
  have early: "find_element_by_text ?o ''Login'' True True None False s0
        = (Inr (PyElement (create link_node (Some orphan_page))), ?s4)"
    using find_element_by_text_first_candidate
            [THEN conjunct2, THEN conjunct1, rule_format, OF g] .
  show ?thesis
    using acc first texts all early [unfolded s4] by (simp add: first_candidate_def)
qed

lemma find_loop_flag:
  "find_loop b q bm ree timeout ty em now s = find_loop b q bm True timeout ty em now s"
proof (induction b q bm ree timeout ty em now s rule: find_loop.induct)
  case (1 b q bm ree timeout ty em now s)
  have fe: "find_element_by_text b q bm ree ty em (await_tab b s)
              = find_element_by_text b q bm True ty em (await_tab b s)"
    by (simp add: find_element_by_text_def)
  obtain x s1 where r: "find_element_by_text b q bm ree ty em (await_tab b s) = (x, s1)"
    by (cases "find_element_by_text b q bm ree ty em (await_tab b s)")
  have L: "find_loop b q bm ree timeout ty em now s =
     (case find_element_by_text b q bm ree ty em (await_tab b s) of
        (Inl e, s1) \<Rightarrow> (Inl e, s1)
      | (Inr item, s1) \<Rightarrow>
          if int (clock s1) - int now > timeout then (Inr PyNone, s1)
          else if truthy item then (Inr item, sleep b 500 s1)
          else find_loop b q bm ree timeout ty em now (sleep b 500 s1))"
    by (rule find_loop.simps)
  have R: "find_loop b q bm True timeout ty em now s =
     (case find_element_by_text b q bm True ty em (await_tab b s) of
        (Inl e, s1) \<Rightarrow> (Inl e, s1)
      | (Inr item, s1) \<Rightarrow>
          if int (clock s1) - int now > timeout then (Inr PyNone, s1)
          else if truthy item then (Inr item, sleep b 500 s1)
          else find_loop b q bm True timeout ty em now (sleep b 500 s1))"
    by (rule find_loop.simps)
  show ?case
  proof (cases x)
    case (Inl e)
    then show ?thesis
      unfolding L R using r fe by simp
  next
    case (Inr item)
    show ?thesis
      unfolding L R using r fe Inr "1.IH" [OF r [symmetric] Inr] by simp
  qed
qed

text \<open>
  C3, at the input where the code leaves it: the text \<open>Login now\<close> is found in a text
  node (type 3), and \<open>find\<close> with \<open>return_enclosing_element\<close> false returns the
  enclosing \<open>a\<close> element, where the specification has it return the text node itself. The flag
  is not read: \<open>find\<close> gives the same result for either value of it, on every input.
\<close>

theorem find_ignores_return_enclosing_element:
  "fst (find search_browser ''Login now'' False False 10000 None False s0)
     = Inr (PyElement link_handle)
   \<and> fst (find search_browser ''Login now'' False False 10000 None False s0)
     \<noteq> Inr (PyElement (create text_node (Some page)))
   \<and> node_type (e_node link_handle) = 1
   \<and> find b q bm False timeout ty em s = find b q bm True timeout ty em s"
proof -
  let ?b = search_browser
  have fe: "find_element_by_text ?b ''Login now'' False False None False s0
     = (Inr (PyElement link_handle),
        send ?b DomDisable (searched ?b ''Login now'' ''1.2'' 1 s0))"
    by (simp add: find_element_by_text_def Let_def search_browser_def stale_browser_def s0_def
          send_def suspend_def searched_def resolve_hits check_text_hit)
  have a: "fst (find ?b ''Login now'' False False 10000 None False s0) = Inr (PyElement link_handle)"
    by (simp add: find_def fe)
  have n: "link_handle \<noteq> create text_node (Some page)"
    by (simp add: link_handle_def create_def link_node_def text_node_def)
  have t: "node_type (e_node link_handle) = 1"
    by (simp add: link_handle_def create_def link_node_def)
  have g: "find b q bm False timeout ty em s = find b q bm True timeout ty em s"
  proof -
    have "find_element_by_text b q bm False ty em s = find_element_by_text b q bm True ty em s"
      by (simp add: find_element_by_text_def)
    then show ?thesis
      by (simp add: find_def find_loop_flag [of b q bm False] split: prod.splits sum.splits)
  qed
  show ?thesis
    using a n t g by simp
qed

end
